theory Spec2Isabelle
  imports Complex_Main "HOL-Library.Multiset" "HOL-Library.Char_ord" "HOL-Library.List_Lexorder"
    "HOL-Library.Product_Lexorder"
begin

section \<open>Values, exceptions and results\<close>

text \<open>
  The relay of \<^verbatim>\<open>telegram_bot.py\<close> handles Python values that come from the trading bot
  and from a JSON file: numbers, strings, booleans, \<^verbatim>\<open>None\<close> and dictionaries with string
  keys. A dictionary is a map from its keys; numbers are the reals the floats stand for.
\<close>

datatype pyval =
    PNone
  | PBool bool
  | PNum real
  | PStr string
  | PDict "string \<Rightarrow> pyval option"

text \<open>The exceptions a handler can meet; a raise is the left injection of a result.\<close>

datatype py_error =
    KeyError string
  | TypeError
  | OSError
  | JSONDecodeError
  | IndexError
  | ValueError
  | NetworkError

type_synonym 'a result = "py_error + 'a"

definition and_then :: "'a result \<Rightarrow> ('a \<Rightarrow> 'b result) \<Rightarrow> 'b result" where
  "and_then r f = (case r of Inl e \<Rightarrow> Inl e | Inr x \<Rightarrow> f x)"

text \<open>
  \<^verbatim>\<open>d[k]\<close> on a dictionary held in a Python variable: a missing key raises
  \<^verbatim>\<open>KeyError\<close>.
\<close>

definition getitem :: "(string \<Rightarrow> pyval option) \<Rightarrow> string \<Rightarrow> pyval result" where
  "getitem d k = (case d k of None \<Rightarrow> Inl (KeyError k) | Some v \<Rightarrow> Inr v)"

text \<open>
  \<^verbatim>\<open>v[k]\<close> on any value with a string key: only a dictionary can be subscripted so,
  every other value raises \<^verbatim>\<open>TypeError\<close>.
\<close>

definition subscript :: "pyval \<Rightarrow> string \<Rightarrow> pyval result" where
  "subscript v k = (case v of PDict d \<Rightarrow> getitem d k | _ \<Rightarrow> Inl TypeError)"

section \<open>The bot, the outside world and the relay's state\<close>

text \<open>
  Modelled from the spec: the declaration of the Bot Facade is not part of the source.
  An entry of \<^verbatim>\<open>open_orders\<close> has the four fields \<^verbatim>\<open>side\<close>, \<^verbatim>\<open>position_side\<close>,
  \<^verbatim>\<open>price\<close> and \<^verbatim>\<open>qty\<close>; the two sides are strings, price and quantity are numbers.
\<close>

record order =
  price :: real
  qty :: real
  side :: string
  position_side :: string

text \<open>The mutators of the bot that the relay calls, with their arguments.\<close>

datatype bot_call =
    Pause
  | Resume
  | SetConfig pyval
  | SetConfigValue string pyval
  | InitIndicators

text \<open>
  What the relay does to the outside, in order: a call of a bot mutator, a call of the
  transport's \<^verbatim>\<open>send_message\<close> with its text, a line printed on the console.
\<close>

datatype event =
    Call bot_call
  | SendMessage string
  | Print string

text \<open>
  The state: the field \<^verbatim>\<open>config_reload_ts\<close> of the \<^verbatim>\<open>Telegram\<close> object, the three
  attributes of the bot that the handlers read, the events so far, and the number of
  indicator tasks that were scheduled with the callback \<^verbatim>\<open>init_finished\<close> and have not
  finished.
\<close>

record world =
  config_reload_ts :: real
  open_orders :: "order list"
  position :: "string \<Rightarrow> pyval option"
  config :: pyval
  trace :: "event list"
  pending :: nat

text \<open>
  What the libraries and the environment decide: whether the transport raises on the
  send that would be event number \<open>n\<close> with a given text, how an f-string formats a value,
  how PrettyTable lays out field names and rows with the style options of the handlers,
  how \<^verbatim>\<open>json.dumps\<close> with \<^verbatim>\<open>indent=4\<close> prints the configuration, the short revision of
  the git checkout (or the exception of the lookup), and the double that the subtraction
  of two doubles gives: \<open>float_sub E a b\<close> is the value of the Python expression
  \<^verbatim>\<open>a - b\<close>, which is the difference of the two reals when that is a double and the double
  next to it otherwise.
\<close>

record env =
  transport :: "nat \<Rightarrow> string \<Rightarrow> py_error option"
  fmt :: "pyval \<Rightarrow> string"
  get_string :: "string list \<Rightarrow> pyval list list \<Rightarrow> string"
  json_dumps :: "pyval \<Rightarrow> string"
  git_rev :: "string result"
  float_sub :: "real \<Rightarrow> real \<Rightarrow> real"

definition emit :: "event \<Rightarrow> world \<Rightarrow> world" where
  "emit e w = w\<lparr>trace := trace w @ [e]\<rparr>"

text \<open>
  Modelled from the spec: the bot is not part of the source. Of its mutators
  \<^verbatim>\<open>set_config\<close> replaces the configuration and \<^verbatim>\<open>set_config_value\<close> sets one value of
  it (a configuration is a mapping; one that is not has no values to set and is left);
  \<^verbatim>\<open>pause\<close>, \<^verbatim>\<open>resume\<close> and \<^verbatim>\<open>init_indicators\<close> leave the attributes that the relay
  reads.
\<close>

fun setitem :: "pyval \<Rightarrow> string \<Rightarrow> pyval \<Rightarrow> pyval" where
  "setitem (PDict d) k v = PDict (d(k \<mapsto> v))"
| "setitem other k v = other"

fun bot_effect :: "bot_call \<Rightarrow> world \<Rightarrow> world" where
  "bot_effect (SetConfig new_config) w = w\<lparr>config := new_config\<rparr>"
| "bot_effect (SetConfigValue k v) w = w\<lparr>config := setitem (config w) k v\<rparr>"
| "bot_effect c w = w"

text \<open>A call of a mutator: the bot changes, and the call is an event.\<close>

definition bot_do :: "bot_call \<Rightarrow> world \<Rightarrow> world" where
  "bot_do c w = emit (Call c) (bot_effect c w)"

section \<open>Sending\<close>

text \<open>
  The call of \<^verbatim>\<open>self._updater.bot.send_message\<close>: the transport takes the message,
  which is an event, or raises.
\<close>

definition send_message :: "env \<Rightarrow> string \<Rightarrow> world \<Rightarrow> world result" where
  "send_message E msg w =
     (case transport E (length (trace w)) msg of
        Some e \<Rightarrow> Inl e
      | None \<Rightarrow> Inr (emit (SendMessage msg) w))"

text \<open>
  \<^verbatim>\<open>send_msg\<close>: the bare \<^verbatim>\<open>except\<close> catches whatever the transport raises and prints
  one line instead.
\<close>

definition send_msg :: "env \<Rightarrow> string \<Rightarrow> world \<Rightarrow> world result" where
  "send_msg E msg w =
     (case send_message E msg w of
        Inr w' \<Rightarrow> Inr w'
      | Inl e \<Rightarrow> Inr (emit (Print ''Failed to send telegram message'') w))"

section \<open>The read-only commands\<close>

definition help_msg :: string where
  "help_msg =
     ''<pre><b>The following commands are available:</b></pre>\<newline>'' @
     ''/balance: the equity & wallet balance in the configured account\<newline>'' @
     ''/orders: a list of all buy & sell orders currently open\<newline>'' @
     ''/graceful_stop: instructs the bot to no longer open new positions and exit gracefully\<newline>'' @
     ''/position: information about the current position(s)\<newline>'' @
     ''/show_config: the active configuration used\<newline>'' @
     ''/reload_config: reload the configuration from disk, based on the file initially used\<newline>'' @
     ''/help: This help page\<newline>''"

definition cmd_help :: "env \<Rightarrow> world \<Rightarrow> world result" where
  "cmd_help E w = send_msg E help_msg w"

subsection \<open>\<^verbatim>\<open>/orders\<close>\<close>

text \<open>
  The \<^verbatim>\<open>for\<close> loop of \<^verbatim>\<open>_orders\<close>: one \<^verbatim>\<open>add_row([position_side, side, price, qty])\<close>
  for each order, in order. The cells of a row are in the order of the field names
  \<^verbatim>\<open>["l/s", "b/s", "price", "qty"]\<close>.
\<close>

fun add_rows :: "order list \<Rightarrow> pyval list list \<Rightarrow> pyval list list" where
  "add_rows [] table = table"
| "add_rows (ord # rest) table =
     add_rows rest
       (table @ [[PStr (position_side ord), PStr (side ord), PNum (price ord), PNum (qty ord)]])"

text \<open>
  PrettyTable is a library outside the source; this is what its \<^verbatim>\<open>get_string\<close> does
  with the option \<^verbatim>\<open>sortby\<close> before it lays the rows out. It looks up the index of the
  sort column among the field names, puts the cell of that column in front of each row,
  sorts these lists ascending (Python compares lists from the left) and takes the first
  cell off again.

  \<open>cell_key\<close> gives the order that Python's \<^verbatim>\<open><\<close> puts on the cells of a column whose
  cells are all numbers or all strings: numbers by value, strings by code point. Python
  refuses to compare a number with a string, \<^verbatim>\<open>None\<close> or a dictionary; such columns do
  not arise from orders with typed fields, and the key ranks them by kind.
\<close>

fun cell_key :: "pyval \<Rightarrow> nat \<times> real \<times> string" where
  "cell_key PNone = (0, 0, [])"
| "cell_key (PBool b) = (1, of_bool b, [])"
| "cell_key (PNum x) = (1, x, [])"
| "cell_key (PStr s) = (2, 0, s)"
| "cell_key (PDict d) = (3, 0, [])"

fun index_of :: "string \<Rightarrow> string list \<Rightarrow> nat option" where
  "index_of name [] = None"
| "index_of name (f # fs) =
     (if f = name then Some 0 else map_option Suc (index_of name fs))"

definition sortby ::
  "string \<Rightarrow> string list \<Rightarrow> pyval list list \<Rightarrow> pyval list list result"
where
  "sortby name field_names rows =
     (case index_of name field_names of
        None \<Rightarrow> Inl ValueError
      | Some sortindex \<Rightarrow>
          if list_all (\<lambda>row. sortindex < length row) rows then
            Inr (map tl
                  (sort_key (map cell_key) (map (\<lambda>row. (row ! sortindex) # row) rows)))
          else Inl IndexError)"

definition cmd_orders :: "env \<Rightarrow> world \<Rightarrow> world result" where
  "cmd_orders E w =
     (let field_names = [''l/s'', ''b/s'', ''price'', ''qty''];
          order_table = add_rows (open_orders w) []
      in and_then (sortby ''price'' field_names order_table) (\<lambda>sorted_rows.
         let table_msg = get_string E field_names sorted_rows;
             msg = ''<pre>'' @ table_msg @ ''</pre>''
         in send_msg E msg w))"

subsection \<open>\<^verbatim>\<open>/position\<close>\<close>

text \<open>
  One \<^verbatim>\<open>add_row([label, long_position[k], shrt_position[k]])\<close>: the long side is read
  first.
\<close>

definition position_row :: "string \<Rightarrow> string \<Rightarrow> pyval \<Rightarrow> pyval \<Rightarrow> pyval list result" where
  "position_row label k long_position shrt_position =
     and_then (subscript long_position k) (\<lambda>a.
     and_then (subscript shrt_position k) (\<lambda>b.
     Inr [PStr label, a, b]))"

text \<open>The six rows of \<^verbatim>\<open>_position\<close>, label and key, from top to bottom.\<close>

definition position_fields :: "(string \<times> string) list" where
  "position_fields =
     [(''Size'', ''size''), (''Price'', ''price''), (''Leverage'', ''leverage''),
      (''Liq.price'', ''liquidation_price''), (''Liq.diff'', ''liq_diff''),
      (''UPNL'', ''upnl'')]"

fun add_position_rows ::
  "(string \<times> string) list \<Rightarrow> pyval \<Rightarrow> pyval \<Rightarrow> pyval list list \<Rightarrow> pyval list list result"
where
  "add_position_rows [] long_position shrt_position table = Inr table"
| "add_position_rows ((label, k) # rest) long_position shrt_position table =
     and_then (position_row label k long_position shrt_position) (\<lambda>row.
     add_position_rows rest long_position shrt_position (table @ [row]))"

definition cmd_position :: "env \<Rightarrow> world \<Rightarrow> world result" where
  "cmd_position E w =
     (if position w ''long'' \<noteq> None then
        and_then (getitem (position w) ''long'') (\<lambda>long_position.
        and_then (getitem (position w) ''shrt'') (\<lambda>shrt_position.
        and_then (add_position_rows position_fields long_position shrt_position []) (\<lambda>table.
        send_msg E (''<pre>'' @ get_string E ['''', ''Long'', ''Short''] table @ ''</pre>'') w)))
      else send_msg E ''Position not initialized yet, please try again later'' w)"

subsection \<open>\<^verbatim>\<open>/balance\<close>\<close>

text \<open>\<^verbatim>\<open>bool(d)\<close> of a dictionary: it has a key.\<close>

definition nonempty :: "(string \<Rightarrow> pyval option) \<Rightarrow> bool" where
  "nonempty d = (d \<noteq> Map.empty)"

definition balance_msg :: "env \<Rightarrow> pyval \<Rightarrow> pyval \<Rightarrow> pyval \<Rightarrow> string" where
  "balance_msg E equity used_margin available_margin =
     ''<pre><b>Balance:</b></pre>\<newline>'' @
     ''Equity: '' @ fmt E equity @ ''\<newline>'' @
     ''Used margin: '' @ fmt E used_margin @ ''\<newline>'' @
     ''Available margin: '' @ fmt E available_margin"

definition cmd_balance :: "env \<Rightarrow> world \<Rightarrow> world result" where
  "cmd_balance E w =
     and_then
       (if nonempty (position w) then
          and_then (getitem (position w) ''equity'') (\<lambda>equity.
          and_then (getitem (position w) ''used_margin'') (\<lambda>used_margin.
          and_then (getitem (position w) ''available_margin'') (\<lambda>available_margin.
          Inr (balance_msg E equity used_margin available_margin))))
        else Inr ''Balance not retrieved yet, please try again later'')
       (\<lambda>msg. send_msg E msg w)"

subsection \<open>\<^verbatim>\<open>/show_config\<close> and the start announcement\<close>

text \<open>
  The message of \<^verbatim>\<open>show_config\<close>; the bare \<^verbatim>\<open>except\<close> around the git lookup puts
  \<^verbatim>\<open>UNKNOWN\<close> for the revision.
\<close>

definition show_config_msg :: "env \<Rightarrow> pyval \<Rightarrow> string" where
  "show_config_msg E cfg =
     (let sha_short = (case git_rev E of Inr s \<Rightarrow> s | Inl e \<Rightarrow> ''UNKNOWN'')
      in ''<pre><b>Version:</b></pre> '' @ sha_short @ '',\<newline>'' @
         ''<pre><b>Config:</b></pre> \<newline>'' @
         json_dumps E cfg)"

definition show_config :: "env \<Rightarrow> world \<Rightarrow> world result" where
  "show_config E w = send_msg E (show_config_msg E (config w)) w"

definition log_start :: "env \<Rightarrow> world \<Rightarrow> world result" where
  "log_start E w =
     and_then (send_msg E ''<b>Passivbot started!</b>'' w) (\<lambda>w1.
     show_config E w1)"

section \<open>The commands that change the bot\<close>

definition cmd_graceful_stop :: "env \<Rightarrow> world \<Rightarrow> world result" where
  "cmd_graceful_stop E w =
     (let w1 = bot_do (SetConfigValue ''do_long'' (PBool False)) w;
          w2 = bot_do (SetConfigValue ''do_shrt'' (PBool False)) w1
      in send_msg E
           ''No longer opening new long or short positions, existing positions will be closed gracefully''
           w2)"

text \<open>
  The callback \<^verbatim>\<open>init_finished\<close> of a reload: resume, announce, clear the timestamp.
\<close>

definition init_finished :: "env \<Rightarrow> world \<Rightarrow> world result" where
  "init_finished E w =
     and_then (log_start E (bot_do Resume w)) (\<lambda>w1.
     Inr (w1\<lparr>config_reload_ts := 0.0\<rparr>))"

text \<open>
  \<^verbatim>\<open>loop.create_task(self._bot.init_indicators())\<close> with \<^verbatim>\<open>add_done_callback\<close>: the bot's
  coroutine is called and one more task waits for its end.
\<close>

definition create_task :: "world \<Rightarrow> world" where
  "create_task w = (bot_do InitIndicators w)\<lparr>pending := Suc (pending w)\<rparr>"

text \<open>
  \<^verbatim>\<open>_reload_config\<close>. The clock is read at most twice: \<open>now_guard\<close> is the value of
  \<^verbatim>\<open>time()\<close> in the guard (read only when the timestamp is positive), \<open>now_set\<close> the value
  stored as the new timestamp. The guard compares the double
  \<^verbatim>\<open>time() - self.config_reload_ts\<close> with 300. \<open>loaded\<close> is the outcome of
  \<^verbatim>\<open>json.load(open(sys.argv[3]))\<close>: the parsed configuration or the exception, any of
  which \<^verbatim>\<open>except Exception\<close> catches.
\<close>

definition cmd_reload_config ::
  "env \<Rightarrow> real \<Rightarrow> real \<Rightarrow> pyval result \<Rightarrow> world \<Rightarrow> world result"
where
  "cmd_reload_config E now_guard now_set loaded w =
     (if config_reload_ts w > 0.0 \<and> float_sub E now_guard (config_reload_ts w) < 60 * 5 then
        send_msg E ''Config reload in progress, please wait'' w
      else
        and_then (send_msg E ''Reloading config...'' (w\<lparr>config_reload_ts := now_set\<rparr>)) (\<lambda>w1.
        case loaded of
          Inl e \<Rightarrow>
            and_then (send_msg E ''Failed to load config file'' w1) (\<lambda>w2.
            Inr (w2\<lparr>config_reload_ts := 0.0\<rparr>))
        | Inr new_config \<Rightarrow>
            Inr (create_task (bot_do (SetConfig new_config) (bot_do Pause w1)))))"

section \<open>Dispatch and runs\<close>

text \<open>
  What can happen to the relay: one of the seven registered commands arrives (a reload
  with what the clock and the file give it), or an indicator task ends and the loop runs
  its callback.
\<close>

datatype input =
    Balance
  | Orders
  | Position
  | GracefulStop
  | ShowConfig
  | ReloadConfig real real "pyval result"
  | Help
  | TaskDone

fun step :: "env \<Rightarrow> world \<Rightarrow> input \<Rightarrow> world result" where
  "step E w Balance = cmd_balance E w"
| "step E w Orders = cmd_orders E w"
| "step E w Position = cmd_position E w"
| "step E w GracefulStop = cmd_graceful_stop E w"
| "step E w ShowConfig = show_config E w"
| "step E w (ReloadConfig now_guard now_set loaded) =
     cmd_reload_config E now_guard now_set loaded w"
| "step E w Help = cmd_help E w"
| "step E w TaskDone =
     (if pending w = 0 then Inr w
      else init_finished E (w\<lparr>pending := pending w - 1\<rparr>))"

fun run :: "env \<Rightarrow> world \<Rightarrow> input list \<Rightarrow> world result" where
  "run E w [] = Inr w"
| "run E w (i # rest) = and_then (step E w i) (\<lambda>w1. run E w1 rest)"

text \<open>The bot mutators called so far, in order.\<close>

fun calls_of :: "event list \<Rightarrow> bot_call list" where
  "calls_of [] = []"
| "calls_of (Call c # es) = c # calls_of es"
| "calls_of (e # es) = calls_of es"

definition calls :: "world \<Rightarrow> bot_call list" where
  "calls w = calls_of (trace w)"

text \<open>
  The mutators of a reload sequence are \<^verbatim>\<open>pause\<close>, \<^verbatim>\<open>set_config\<close>,
  \<^verbatim>\<open>init_indicators\<close> and \<^verbatim>\<open>resume\<close>; \<^verbatim>\<open>set_config_value\<close> is the mutator of
  \<^verbatim>\<open>/graceful_stop\<close>.
\<close>

fun reload_call :: "bot_call \<Rightarrow> bool" where
  "reload_call (SetConfigValue k v) = False"
| "reload_call c = True"

definition reload_calls :: "world \<Rightarrow> bot_call list" where
  "reload_calls w = filter reload_call (calls w)"

text \<open>
  An input that neither ends nor renews a reload whose timestamp is \<open>ts\<close>: any command
  but a \<^verbatim>\<open>/reload_config\<close> whose guard computes 300 seconds or more, and no callback.
\<close>

fun leaves_reload :: "env \<Rightarrow> real \<Rightarrow> input \<Rightarrow> bool" where
  "leaves_reload E ts (ReloadConfig now_guard now_set loaded) =
     (float_sub E now_guard ts < 60 * 5)"
| "leaves_reload E ts TaskDone = False"
| "leaves_reload E ts i = True"

text \<open>
  The event one \<^verbatim>\<open>send_msg\<close> leaves when the trace has \<open>n\<close> events: the message, or the
  printed line when the transport raised.
\<close>

definition reply :: "env \<Rightarrow> nat \<Rightarrow> string \<Rightarrow> event" where
  "reply E n msg =
     (case transport E n msg of
        None \<Rightarrow> SendMessage msg
      | Some e \<Rightarrow> Print ''Failed to send telegram message'')"

section \<open>Concrete environments and states\<close>

text \<open>
  An environment whose transport delivers every message and whose subtraction is exact
  (as it is for two readings of a clock that counts seconds since 1970, a few minutes
  apart), one whose transport always raises, and the state that \<^verbatim>\<open>__init__\<close> leaves (the
  timestamp is \<^verbatim>\<open>0.0\<close>) over a bot that has no orders and no position yet.
\<close>

definition quiet_env :: env where
  "quiet_env =
     \<lparr>transport = (\<lambda>n msg. None), fmt = (\<lambda>v. ''?''),
      get_string = (\<lambda>field_names rows. ''table''), json_dumps = (\<lambda>cfg. ''{}''),
      git_rev = Inl OSError, float_sub = (\<lambda>a b. a - b)\<rparr>"

definition offline_env :: env where
  "offline_env = quiet_env\<lparr>transport := (\<lambda>n msg. Some NetworkError)\<rparr>"

text \<open>
  An environment that shows what it is given: a whole number is printed in decimal, a
  string as it is, and a table row after row, cell after cell.
\<close>

function digits :: "nat \<Rightarrow> string" where
  "digits n =
     (if n < 10 then [''0123456789'' ! n]
      else digits (n div 10) @ [''0123456789'' ! (n mod 10)])"
  by pat_completeness auto

termination digits
  by (relation "measure (\<lambda>n. n)") auto

fun show_cell :: "pyval \<Rightarrow> string" where
  "show_cell PNone = ''None''"
| "show_cell (PBool b) = (if b then ''True'' else ''False'')"
| "show_cell (PNum x) = digits (nat \<lfloor>x\<rfloor>)"
| "show_cell (PStr s) = s"
| "show_cell (PDict d) = ''{}''"

definition show_row :: "pyval list \<Rightarrow> string" where
  "show_row row = concat (map (\<lambda>c. show_cell c @ '' '') row) @ ''|''"

definition listing_env :: env where
  "listing_env =
     quiet_env\<lparr>fmt := show_cell, get_string := (\<lambda>field_names rows. concat (map show_row rows))\<rparr>"

definition init_world :: world where
  "init_world =
     \<lparr>config_reload_ts = 0.0, open_orders = [], position = Map.empty,
      config = PDict Map.empty, trace = [], pending = 0\<rparr>"

text \<open>One side of a position with its six fields.\<close>

definition example_side :: "string \<Rightarrow> pyval option" where
  "example_side =
     [''size'' \<mapsto> PNum 1, ''price'' \<mapsto> PNum 100, ''leverage'' \<mapsto> PNum 5,
      ''liquidation_price'' \<mapsto> PNum 80, ''liq_diff'' \<mapsto> PNum 2, ''upnl'' \<mapsto> PNum 3]"

text \<open>
  An input whose clock is sane: the reading that a reload stores as its timestamp is
  positive, as seconds since 1970 are.
\<close>

fun clock_positive :: "input \<Rightarrow> bool" where
  "clock_positive (ReloadConfig now_guard now_set loaded) = (0 < now_set)"
| "clock_positive i = True"


section \<open>Basic facts\<close>

text \<open>
  A \<^verbatim>\<open>send_msg\<close> always returns and leaves exactly one event; the bot's calls and the
  timestamp are fields that an event does not touch.
\<close>

lemma send_msg_reply: "send_msg E msg w = Inr (emit (reply E (length (trace w)) msg) w)"
  by (simp add: send_msg_def send_message_def reply_def split: option.split)

lemma and_then_Inr [simp]: "and_then (Inr x) f = f x"
  by (simp add: and_then_def)

lemma and_then_Inl [simp]: "and_then (Inl e) f = Inl e"
  by (simp add: and_then_def)

lemma and_then_return [simp]: "and_then r Inr = r"
  by (cases r) simp_all

lemma calls_of_append: "calls_of (xs @ ys) = calls_of xs @ calls_of ys"
  by (induction xs rule: calls_of.induct) simp_all

lemma calls_of_reply [simp]: "calls_of [reply E n msg] = []"
  by (simp add: reply_def split: option.split)

lemma emit_fields [simp]:
  "trace (emit e w) = trace w @ [e]"
  "config_reload_ts (emit e w) = config_reload_ts w"
  "pending (emit e w) = pending w"
  "position (emit e w) = position w"
  "open_orders (emit e w) = open_orders w"
  "config (emit e w) = config w"
  by (simp_all add: emit_def)

lemma emit_ts_update: "emit e (w\<lparr>config_reload_ts := t\<rparr>) = (emit e w)\<lparr>config_reload_ts := t\<rparr>"
  by (simp add: emit_def)

lemma calls_emit_reply [simp]: "calls (emit (reply E n msg) w) = calls w"
  by (simp add: calls_def calls_of_append)

lemma calls_emit_Call [simp]: "calls (emit (Call c) w) = calls w @ [c]"
  by (simp add: calls_def calls_of_append)

lemma calls_ts_update [simp]: "calls (w\<lparr>config_reload_ts := t\<rparr>) = calls w"
  by (simp add: calls_def)

lemma calls_pending_update [simp]: "calls (w\<lparr>pending := n\<rparr>) = calls w"
  by (simp add: calls_def)

lemma calls_config_update [simp]: "calls (w\<lparr>config := c\<rparr>) = calls w"
  by (simp add: calls_def)

lemma bot_effect_fields [simp]:
  "trace (bot_effect c w) = trace w"
  "config_reload_ts (bot_effect c w) = config_reload_ts w"
  "pending (bot_effect c w) = pending w"
  "position (bot_effect c w) = position w"
  "open_orders (bot_effect c w) = open_orders w"
  by (cases c; simp)+

lemma bot_do_fields [simp]:
  "trace (bot_do c w) = trace w @ [Call c]"
  "config_reload_ts (bot_do c w) = config_reload_ts w"
  "pending (bot_do c w) = pending w"
  "position (bot_do c w) = position w"
  "open_orders (bot_do c w) = open_orders w"
  "calls (bot_do c w) = calls w @ [c]"
  by (simp_all add: bot_do_def calls_def calls_of_append)

lemma bot_do_config [simp]:
  "config (bot_do (SetConfig cfg) w) = cfg"
  "config (bot_do (SetConfigValue k v) w) = setitem (config w) k v"
  "config (bot_do Pause w) = config w"
  "config (bot_do Resume w) = config w"
  "config (bot_do InitIndicators w) = config w"
  by (simp_all add: bot_do_def)

lemma create_task_fields [simp]:
  "trace (create_task w) = trace w @ [Call InitIndicators]"
  "config_reload_ts (create_task w) = config_reload_ts w"
  "pending (create_task w) = Suc (pending w)"
  "position (create_task w) = position w"
  "open_orders (create_task w) = open_orders w"
  "config (create_task w) = config w"
  "calls (create_task w) = calls w @ [InitIndicators]"
  by (simp_all add: create_task_def calls_def calls_of_append)

lemma reload_rejected:
  assumes "0 < config_reload_ts w" and "float_sub E now_guard (config_reload_ts w) < 300"
  shows "cmd_reload_config E now_guard now_set loaded w =
           send_msg E ''Config reload in progress, please wait'' w"
  using assms by (simp add: cmd_reload_config_def)

lemma reload_accepted_ok:
  assumes "\<not> (0 < config_reload_ts w \<and> float_sub E now_guard (config_reload_ts w) < 300)"
  shows "cmd_reload_config E now_guard now_set (Inr cfg) w =
           Inr (create_task (bot_do (SetConfig cfg) (bot_do Pause
             (emit (reply E (length (trace w)) ''Reloading config...'')
                (w\<lparr>config_reload_ts := now_set\<rparr>)))))"
  using assms by (auto simp add: cmd_reload_config_def send_msg_reply)

lemma reload_accepted_fail:
  assumes "\<not> (0 < config_reload_ts w \<and> float_sub E now_guard (config_reload_ts w) < 300)"
  shows "cmd_reload_config E now_guard now_set (Inl e) w =
           Inr ((emit (reply E (Suc (length (trace w))) ''Failed to load config file'')
             (emit (reply E (length (trace w)) ''Reloading config...'')
                (w\<lparr>config_reload_ts := now_set\<rparr>)))\<lparr>config_reload_ts := 0\<rparr>)"
  using assms by (auto simp add: cmd_reload_config_def send_msg_reply)


lemma run_rejected:
  assumes "0 < config_reload_ts w"
    and "\<forall>(g, s, l) \<in> set rest. float_sub E g (config_reload_ts w) < 300"
  shows "run E w (map (\<lambda>(g, s, l). ReloadConfig g s l) rest) =
           Inr (w\<lparr>trace := trace w @
                  map (\<lambda>i. reply E (length (trace w) + i) ''Config reload in progress, please wait'')
                    [0..<length rest]\<rparr>)"
  using assms
proof (induction rest arbitrary: w)
  case Nil
  then show ?case by simp
next
  case (Cons a rest)
  obtain g s l where a: "a = (g, s, l)" by (cases a)
  let ?w1 = "emit (reply E (length (trace w)) ''Config reload in progress, please wait'') w"
  have g: "float_sub E g (config_reload_ts w) < 300" using Cons.prems(2) a by simp
  have first: "cmd_reload_config E g s l w = Inr ?w1"
    using reload_rejected [OF Cons.prems(1) g] by (simp add: send_msg_reply)
  have rest: "run E ?w1 (map (\<lambda>(g, s, l). ReloadConfig g s l) rest) =
           Inr (?w1\<lparr>trace := trace ?w1 @
                  map (\<lambda>i. reply E (length (trace ?w1) + i) ''Config reload in progress, please wait'')
                    [0..<length rest]\<rparr>)"
    using Cons.prems by (intro Cons.IH) simp_all
  have shift: "?w1\<lparr>trace := trace ?w1 @
                  map (\<lambda>i. reply E (length (trace ?w1) + i) ''Config reload in progress, please wait'')
                    [0..<length rest]\<rparr> =
        w\<lparr>trace := trace w @
                  map (\<lambda>i. reply E (length (trace w) + i) ''Config reload in progress, please wait'')
                    [0..<length (a # rest)]\<rparr>"
    by (simp add: emit_def map_upt_Suc del: upt_Suc)
  have "run E w (map (\<lambda>(g, s, l). ReloadConfig g s l) (a # rest)) =
        run E ?w1 (map (\<lambda>(g, s, l). ReloadConfig g s l) rest)"
    by (simp add: a first)
  then show ?case
    by (simp only: rest shift)
qed


lemma trace_ts_update [simp]: "trace (w\<lparr>config_reload_ts := t\<rparr>) = trace w"
  by simp

lemma calls_of_reply_Cons [simp]: "calls_of (reply E n msg # es) = calls_of es"
  by (simp add: reply_def split: option.split)

lemma calls_of_replies [simp]: "calls_of (map (\<lambda>i. reply E (f i) msg) xs) = []"
  by (induction xs) simp_all

section \<open>The rows of the order table\<close>

text \<open>
  The loop of \<^verbatim>\<open>_orders\<close> adds one row of four cells for each order; sorting the
  rows by the column \<^verbatim>\<open>price\<close> is sorting the orders by the key that starts with the
  price.
\<close>

lemma add_rows_append:
  "add_rows orders table =
     table @
     map (\<lambda>ord. [PStr (position_side ord), PStr (side ord), PNum (price ord), PNum (qty ord)])
       orders"
  by (induction orders arbitrary: table) simp_all

lemma insort_key_map:
  "insort_key f (g x) (map g xs) = map g (insort_key (\<lambda>x. f (g x)) x xs)"
  by (induction xs) simp_all

lemma sort_key_map: "sort_key f (map g xs) = map g (sort_key (\<lambda>x. f (g x)) xs)"
  by (induction xs) (simp_all add: insort_key_map)

lemma index_of_price: "index_of ''price'' [''l/s'', ''b/s'', ''price'', ''qty''] = Some 2"
  by simp

lemma sortby_price_orders:
  "sortby ''price'' [''l/s'', ''b/s'', ''price'', ''qty'']
     (map (\<lambda>ord. [PStr (position_side ord), PStr (side ord), PNum (price ord), PNum (qty ord)])
        orders) =
   Inr (map (\<lambda>ord. [PStr (position_side ord), PStr (side ord), PNum (price ord), PNum (qty ord)])
         (sort_key (\<lambda>ord. map cell_key
             [PNum (price ord),
              PStr (position_side ord), PStr (side ord), PNum (price ord), PNum (qty ord)])
            orders))"
  unfolding sortby_def index_of_price
  by (simp add: list_all_iff sort_key_map comp_def)

lemma sorted_by_price_key:
  "sorted (map (\<lambda>ord. map cell_key (PNum (price ord) # rest ord)) orders) \<Longrightarrow>
   sorted (map price orders)"
  by (induction orders) (auto simp add: less_eq_prod_def less_prod_def)

section \<open>Commands that leave a reload in flight\<close>

text \<open>
  A command that is not an accepted \<^verbatim>\<open>/reload_config\<close> sends at most a reply, and
  \<^verbatim>\<open>/graceful_stop\<close> calls \<^verbatim>\<open>set_config_value\<close> only: the timestamp, the waiting tasks
  and the calls of the reload sequence stay as they are.
\<close>

lemma reload_calls_emit_reply [simp]: "reload_calls (emit (reply E n msg) w) = reload_calls w"
  by (simp add: reload_calls_def)

lemma reload_calls_bot_do [simp]:
  "reload_calls (bot_do c w) = reload_calls w @ (if reload_call c then [c] else [])"
  by (simp add: reload_calls_def)

lemma and_then_send_frame:
  "and_then r (\<lambda>x. send_msg E (f x) w) = Inr w' \<Longrightarrow>
     config_reload_ts w' = config_reload_ts w \<and> pending w' = pending w \<and>
     reload_calls w' = reload_calls w"
  by (cases r) (auto simp add: send_msg_reply)

lemma step_leaves_reload:
  assumes "0 < config_reload_ts w" and "leaves_reload E (config_reload_ts w) i"
    and "step E w i = Inr w'"
  shows "config_reload_ts w' = config_reload_ts w \<and> pending w' = pending w \<and>
     reload_calls w' = reload_calls w"
proof (cases i)
  case Balance
  with assms(3) show ?thesis
    unfolding Balance step.simps cmd_balance_def by (intro and_then_send_frame [where f = "\<lambda>x. x"])
next
  case Orders
  with assms(3) show ?thesis
    unfolding Orders step.simps cmd_orders_def Let_def by (intro and_then_send_frame)
next
  case Position
  show ?thesis
  proof (cases "position w ''long'' = None")
    case True
    with assms Position show ?thesis
      by (auto simp add: cmd_position_def send_msg_reply)
  next
    case False
    with assms(3) have "and_then
        (and_then (getitem (position w) ''long'') (\<lambda>long_position.
         and_then (getitem (position w) ''shrt'') (\<lambda>shrt_position.
         add_position_rows position_fields long_position shrt_position [])))
        (\<lambda>table. send_msg E
           (''<pre>'' @ get_string E ['''', ''Long'', ''Short''] table @ ''</pre>'') w) = Inr w'"
      unfolding Position step.simps
      by (cases "getitem (position w) ''long''"; cases "getitem (position w) ''shrt''")
        (simp_all add: cmd_position_def)
    then show ?thesis
      by (rule and_then_send_frame)
  qed
next
  case GracefulStop
  with assms show ?thesis
    by (auto simp add: cmd_graceful_stop_def Let_def send_msg_reply)
next
  case ShowConfig
  with assms show ?thesis
    by (auto simp add: show_config_def send_msg_reply)
next
  case (ReloadConfig now_guard now_set loaded)
  with assms have "cmd_reload_config E now_guard now_set loaded w = Inr w'"
    and "float_sub E now_guard (config_reload_ts w) < 300"
    by simp_all
  with assms(1) show ?thesis
    by (simp add: reload_rejected send_msg_reply) auto
next
  case Help
  with assms show ?thesis
    by (auto simp add: cmd_help_def send_msg_reply)
next
  case TaskDone
  with assms show ?thesis
    by simp
qed

lemma run_leaves_reload:
  "0 < config_reload_ts w \<Longrightarrow> list_all (leaves_reload E (config_reload_ts w)) inputs \<Longrightarrow>
   run E w inputs = Inr w' \<Longrightarrow>
     config_reload_ts w' = config_reload_ts w \<and> pending w' = pending w \<and>
     reload_calls w' = reload_calls w"
proof (induction inputs arbitrary: w)
  case Nil
  then show ?case by simp
next
  case (Cons i inputs)
  from Cons.prems(3) obtain w1 where first: "step E w i = Inr w1"
    and rest: "run E w1 inputs = Inr w'"
    by (cases "step E w i") simp_all
  from Cons.prems(1,2) first have same: "config_reload_ts w1 = config_reload_ts w \<and>
      pending w1 = pending w \<and> reload_calls w1 = reload_calls w"
    by (intro step_leaves_reload [of w E i w1]) simp_all
  with Cons.prems(1,2) rest have "config_reload_ts w' = config_reload_ts w1 \<and>
      pending w' = pending w1 \<and> reload_calls w' = reload_calls w1"
    by (intro Cons.IH [of w1]) simp_all
  with same show ?case by simp
qed

text \<open>
  With a positive timestamp the guard alone decides: the handler is the in-progress
  reply exactly when the guard computes fewer than 300 seconds.
\<close>

lemma reload_rejected_iff:
  assumes "0 < config_reload_ts w"
  shows "(cmd_reload_config E now_guard now_set loaded w =
            send_msg E ''Config reload in progress, please wait'' w)
         = (float_sub E now_guard (config_reload_ts w) < 300)"
proof (cases "float_sub E now_guard (config_reload_ts w) < 300")
  case True
  then show ?thesis
    using reload_rejected [OF assms True] by simp
next
  case False
  then have open_again:
    "\<not> (0 < config_reload_ts w \<and> float_sub E now_guard (config_reload_ts w) < 300)"
    by simp
  have "cmd_reload_config E now_guard now_set loaded w \<noteq>
          send_msg E ''Config reload in progress, please wait'' w"
  proof (cases loaded)
    case (Inl e)
    have "length (trace ((emit (reply E (Suc (length (trace w))) ''Failed to load config file'')
             (emit (reply E (length (trace w)) ''Reloading config...'')
                (w\<lparr>config_reload_ts := now_set\<rparr>)))\<lparr>config_reload_ts := 0\<rparr>)) \<noteq>
          length (trace (emit (reply E (length (trace w))
            ''Config reload in progress, please wait'') w))"
      by simp
    then show ?thesis
      unfolding Inl reload_accepted_fail [OF open_again] send_msg_reply
      by (metis sum.inject(2))
  next
    case (Inr new_config)
    have "pending (create_task (bot_do (SetConfig new_config) (bot_do Pause
             (emit (reply E (length (trace w)) ''Reloading config...'')
                (w\<lparr>config_reload_ts := now_set\<rparr>))))) \<noteq>
          pending (emit (reply E (length (trace w))
            ''Config reload in progress, please wait'') w)"
      by simp
    then show ?thesis
      unfolding Inr reload_accepted_ok [OF open_again] send_msg_reply
      by (metis sum.inject(2))
  qed
  with False show ?thesis by simp
qed

section \<open>The timestamp is never negative\<close>

text \<open>
  The timestamp starts at zero and is only ever set to zero or to a reading of the clock;
  with clock readings that are positive it is never negative, so a timestamp that is not
  zero is positive and the guard of \<^verbatim>\<open>_reload_config\<close> looks at the clock.
\<close>

lemma and_then_send_ts:
  "and_then r (\<lambda>x. send_msg E (f x) w) = Inr w' \<Longrightarrow> config_reload_ts w' = config_reload_ts w"
  by (cases r) (auto simp add: send_msg_reply)

lemma step_ts_nonneg:
  assumes "0 \<le> config_reload_ts w" and "clock_positive i" and "step E w i = Inr w'"
  shows "0 \<le> config_reload_ts w'"
proof (cases i)
  case Balance
  with assms(3) have "config_reload_ts w' = config_reload_ts w"
    unfolding Balance step.simps cmd_balance_def by (intro and_then_send_ts [where f = "\<lambda>x. x"])
  with assms(1) show ?thesis by simp
next
  case Orders
  with assms show ?thesis
    by (auto simp add: cmd_orders_def Let_def sortby_def send_msg_reply split: option.splits if_splits)
next
  case Position
  show ?thesis
  proof (cases "position w ''long'' = None")
    case True
    with assms Position show ?thesis
      by (auto simp add: cmd_position_def send_msg_reply)
  next
    case False
    with assms(3) have "and_then
        (and_then (getitem (position w) ''long'') (\<lambda>long_position.
         and_then (getitem (position w) ''shrt'') (\<lambda>shrt_position.
         add_position_rows position_fields long_position shrt_position [])))
        (\<lambda>table. send_msg E
           (''<pre>'' @ get_string E ['''', ''Long'', ''Short''] table @ ''</pre>'') w) = Inr w'"
      unfolding Position step.simps
      by (cases "getitem (position w) ''long''"; cases "getitem (position w) ''shrt''")
        (simp_all add: cmd_position_def)
    then have "config_reload_ts w' = config_reload_ts w"
      by (rule and_then_send_ts)
    with assms(1) show ?thesis by simp
  qed
next
  case GracefulStop
  with assms show ?thesis
    by (auto simp add: cmd_graceful_stop_def Let_def send_msg_reply)
next
  case ShowConfig
  with assms show ?thesis
    by (auto simp add: show_config_def send_msg_reply)
next
  case (ReloadConfig now_guard now_set loaded)
  with assms show ?thesis
    by (cases loaded)
      (auto simp add: cmd_reload_config_def send_msg_reply split: if_splits)
next
  case Help
  with assms show ?thesis
    by (auto simp add: cmd_help_def send_msg_reply)
next
  case TaskDone
  with assms show ?thesis
    by (auto simp add: init_finished_def log_start_def show_config_def
        send_msg_reply split: if_splits)
qed

lemma run_ts_nonneg:
  "0 \<le> config_reload_ts w \<Longrightarrow> \<forall>i \<in> set inputs. clock_positive i \<Longrightarrow>
   run E w inputs = Inr w' \<Longrightarrow> 0 \<le> config_reload_ts w'"
proof (induction inputs arbitrary: w)
  case Nil
  then show ?case by simp
next
  case (Cons i inputs)
  from Cons.prems(3) obtain w1 where first: "step E w i = Inr w1"
    and rest: "run E w1 inputs = Inr w'"
    by (cases "step E w i") simp_all
  from Cons.prems(1,2) first have "0 \<le> config_reload_ts w1"
    by (intro step_ts_nonneg [of w i E w1]) simp_all
  with Cons.prems(2) rest show ?case
    by (intro Cons.IH [of w1]) simp_all
qed

lemma init_world_ts_nonneg: "0 \<le> config_reload_ts init_world"
  by (simp add: init_world_def)

section \<open>The reload guard\<close>

text \<open>
  Claim C1 says that of the \<^verbatim>\<open>/reload_config\<close> invocations inside a window of five minutes
  whose first succeeds only the first calls the bot. The callback of the first reload
  sets the timestamp back to zero: a reload at time 1000 whose indicator task ends is
  followed by a reload at time 1100, inside the window, that calls pause, set_config and
  init_indicators a second time; only the one after it, at time 1150, is rejected.
\<close>

theorem reload_after_callback_counterexample:
  "run quiet_env init_world
     [ReloadConfig 1000 1000 (Inr PNone), TaskDone, ReloadConfig 1100 1100 (Inr PNone),
      ReloadConfig 1150 1150 (Inr PNone)] =
   Inr (init_world\<lparr>config_reload_ts := 1100, config := PNone,
          trace :=
            [SendMessage ''Reloading config...'',
             Call Pause, Call (SetConfig PNone), Call InitIndicators, Call Resume,
             SendMessage ''<b>Passivbot started!</b>'',
             SendMessage (show_config_msg quiet_env PNone),
             SendMessage ''Reloading config...'',
             Call Pause, Call (SetConfig PNone), Call InitIndicators,
             SendMessage ''Config reload in progress, please wait''],
          pending := 1\<rparr>)"
  by (simp add: init_world_def quiet_env_def cmd_reload_config_def
      send_msg_def send_message_def emit_def bot_do_def create_task_def init_finished_def
      log_start_def show_config_def)

text \<open>
  Claim C1, amended. In a state whose reload timestamp is not zero (timestamps are
  \<^verbatim>\<open>0.0\<close> or a reading of the clock, so not negative) and for which the guard computes
  fewer than 300 seconds between the timestamp and the clock, \<^verbatim>\<open>/reload_config\<close> is one
  \<^verbatim>\<open>send_msg\<close> of \<^verbatim>\<open>Config reload in progress, please wait\<close>: the trace grows by that
  reply alone, no bot mutator is called and the timestamp stays. Hence in a run of
  \<^verbatim>\<open>/reload_config\<close> invocations in which no callback runs, whose first passes the guard,
  loads its configuration and stores a positive clock reading, and whose later ones all
  compute fewer than 300 seconds since that reading, only the first calls the bot (pause,
  set_config, init_indicators); every later one leaves the in-progress reply. The same
  holds when other commands are handled in between and return: the calls of a reload
  sequence are those of the first invocation.
\<close>

theorem reload_config_in_progress:
  "(config_reload_ts w \<noteq> 0 \<and> 0 \<le> config_reload_ts w \<and>
    float_sub E now_guard (config_reload_ts w) < 300 \<longrightarrow>
      cmd_reload_config E now_guard now_set loaded w =
        send_msg E ''Config reload in progress, please wait'' w \<and>
      cmd_reload_config E now_guard now_set loaded w =
        Inr (w\<lparr>trace := trace w @
               [reply E (length (trace w)) ''Config reload in progress, please wait'']\<rparr>) \<and>
      calls (w\<lparr>trace := trace w @
               [reply E (length (trace w)) ''Config reload in progress, please wait'']\<rparr>) =
        calls w) \<and>
   (\<not> (0 < config_reload_ts w \<and> float_sub E g0 (config_reload_ts w) < 300) \<and> 0 < s0 \<and>
    (\<forall>(g, s, l) \<in> set rest. float_sub E g s0 < 300) \<longrightarrow>
      (\<exists>w'. run E w (ReloadConfig g0 s0 (Inr cfg) # map (\<lambda>(g, s, l). ReloadConfig g s l) rest) =
              Inr w' \<and>
            calls w' = calls w @ [Pause, SetConfig cfg, InitIndicators] \<and>
            config_reload_ts w' = s0 \<and>
            pending w' = Suc (pending w) \<and>
            trace w' =
              trace w @
              [reply E (length (trace w)) ''Reloading config...'',
               Call Pause, Call (SetConfig cfg), Call InitIndicators] @
              map (\<lambda>i. reply E (length (trace w) + 4 + i)
                          ''Config reload in progress, please wait'')
                [0..<length rest])) \<and>
   (\<not> (0 < config_reload_ts w \<and> float_sub E g0 (config_reload_ts w) < 300) \<and> 0 < s0 \<and>
    list_all (leaves_reload E s0) between \<and>
    run E w (ReloadConfig g0 s0 (Inr cfg) # between) = Inr w2 \<longrightarrow>
      reload_calls w2 = reload_calls w @ [Pause, SetConfig cfg, InitIndicators] \<and>
      config_reload_ts w2 = s0 \<and>
      pending w2 = Suc (pending w))"
proof (intro conjI impI)
  assume h: "config_reload_ts w \<noteq> 0 \<and> 0 \<le> config_reload_ts w \<and>
    float_sub E now_guard (config_reload_ts w) < 300"
  then have pos: "0 < config_reload_ts w"
    and win: "float_sub E now_guard (config_reload_ts w) < 300"
    by simp_all
  show "cmd_reload_config E now_guard now_set loaded w =
        send_msg E ''Config reload in progress, please wait'' w"
    by (rule reload_rejected [OF pos win])
  then show "cmd_reload_config E now_guard now_set loaded w =
        Inr (w\<lparr>trace := trace w @
               [reply E (length (trace w)) ''Config reload in progress, please wait'']\<rparr>)"
    by (simp add: send_msg_reply emit_def)
  show "calls (w\<lparr>trace := trace w @
               [reply E (length (trace w)) ''Config reload in progress, please wait'']\<rparr>) =
        calls w"
    by (simp add: calls_def calls_of_append)
next
  assume h: "\<not> (0 < config_reload_ts w \<and> float_sub E g0 (config_reload_ts w) < 300) \<and>
    0 < s0 \<and> (\<forall>(g, s, l) \<in> set rest. float_sub E g s0 < 300)"
  let ?w1 = "create_task (bot_do (SetConfig cfg) (bot_do Pause
             (emit (reply E (length (trace w)) ''Reloading config...'')
                (w\<lparr>config_reload_ts := s0\<rparr>))))"
  let ?w2 = "?w1\<lparr>trace := trace ?w1 @
                  map (\<lambda>i. reply E (length (trace ?w1) + i) ''Config reload in progress, please wait'')
                    [0..<length rest]\<rparr>"
  have first: "cmd_reload_config E g0 s0 (Inr cfg) w = Inr ?w1"
    using h by (intro reload_accepted_ok) simp
  have ts1: "config_reload_ts ?w1 = s0" by simp
  have later: "run E ?w1 (map (\<lambda>(g, s, l). ReloadConfig g s l) rest) = Inr ?w2"
    using h by (intro run_rejected) (simp_all only: ts1, simp_all)
  have whole: "run E w (ReloadConfig g0 s0 (Inr cfg) # map (\<lambda>(g, s, l). ReloadConfig g s l) rest) =
      Inr ?w2"
    using later by (simp add: first)
  have c: "calls ?w2 = calls w @ [Pause, SetConfig cfg, InitIndicators]"
    by (simp add: calls_def calls_of_append)
  show "\<exists>w'. run E w (ReloadConfig g0 s0 (Inr cfg) # map (\<lambda>(g, s, l). ReloadConfig g s l) rest) =
              Inr w' \<and>
            calls w' = calls w @ [Pause, SetConfig cfg, InitIndicators] \<and>
            config_reload_ts w' = s0 \<and>
            pending w' = Suc (pending w) \<and>
            trace w' =
              trace w @
              [reply E (length (trace w)) ''Reloading config...'',
               Call Pause, Call (SetConfig cfg), Call InitIndicators] @
              map (\<lambda>i. reply E (length (trace w) + 4 + i)
                          ''Config reload in progress, please wait'')
                [0..<length rest]"
    apply (rule exI [of _ ?w2])
    apply (intro conjI)
        apply (rule whole)
       apply (rule c)
      apply simp
     apply simp
    apply (simp add: eval_nat_numeral)
    done
next
  assume h: "\<not> (0 < config_reload_ts w \<and> float_sub E g0 (config_reload_ts w) < 300) \<and>
    0 < s0 \<and> list_all (leaves_reload E s0) between \<and>
    run E w (ReloadConfig g0 s0 (Inr cfg) # between) = Inr w2"
  let ?w1 = "create_task (bot_do (SetConfig cfg) (bot_do Pause
             (emit (reply E (length (trace w)) ''Reloading config...'')
                (w\<lparr>config_reload_ts := s0\<rparr>))))"
  have first: "cmd_reload_config E g0 s0 (Inr cfg) w = Inr ?w1"
    using h by (intro reload_accepted_ok) simp
  have ts1: "config_reload_ts ?w1 = s0" by simp
  have later: "run E ?w1 between = Inr w2"
    using h by (simp add: first)
  have pos1: "0 < config_reload_ts ?w1"
    using h by (simp only: ts1)
  have quiet: "list_all (leaves_reload E (config_reload_ts ?w1)) between"
    using h by (simp only: ts1)
  have kept: "config_reload_ts w2 = config_reload_ts ?w1 \<and> pending w2 = pending ?w1 \<and>
     reload_calls w2 = reload_calls ?w1"
    using pos1 quiet later by (rule run_leaves_reload)
  have started: "reload_calls ?w1 = reload_calls w @ [Pause, SetConfig cfg, InitIndicators]"
    by (simp add: reload_calls_def)
  from kept show "reload_calls w2 = reload_calls w @ [Pause, SetConfig cfg, InitIndicators]"
    by (simp only: started)
  from kept show "config_reload_ts w2 = s0"
    by (simp only: ts1)
  from kept show "pending w2 = Suc (pending w)"
    by simp
qed

theorem reload_config_in_progress_witness:
  "cmd_reload_config quiet_env 1100 1100 (Inr PNone) (init_world\<lparr>config_reload_ts := 1000\<rparr>) =
     Inr (init_world\<lparr>config_reload_ts := 1000,
            trace := [SendMessage ''Config reload in progress, please wait'']\<rparr>) \<and>
   (\<exists>w'. run quiet_env init_world
            [ReloadConfig 1000 1000 (Inr PNone), ReloadConfig 1100 1100 (Inr PNone),
             ReloadConfig 1299 1299 (Inl OSError)] = Inr w' \<and>
         calls w' = [Pause, SetConfig PNone, InitIndicators] \<and>
         config_reload_ts w' = 1000 \<and> pending w' = 1 \<and>
         trace w' =
           [SendMessage ''Reloading config...'', Call Pause, Call (SetConfig PNone),
            Call InitIndicators,
            SendMessage ''Config reload in progress, please wait'',
            SendMessage ''Config reload in progress, please wait'']) \<and>
   run quiet_env init_world
     [ReloadConfig 1000 1000 (Inr (PDict Map.empty)), GracefulStop,
      ReloadConfig 1100 1100 (Inl OSError)] =
     Inr (init_world\<lparr>config_reload_ts := 1000,
            config := PDict [''do_long'' \<mapsto> PBool False, ''do_shrt'' \<mapsto> PBool False],
            trace :=
              [SendMessage ''Reloading config...'', Call Pause,
               Call (SetConfig (PDict Map.empty)), Call InitIndicators,
               Call (SetConfigValue ''do_long'' (PBool False)),
               Call (SetConfigValue ''do_shrt'' (PBool False)),
               SendMessage
                 ''No longer opening new long or short positions, existing positions will be closed gracefully'',
               SendMessage ''Config reload in progress, please wait''],
            pending := 1\<rparr>) \<and>
   reload_calls
     (init_world\<lparr>config_reload_ts := 1000,
            config := PDict [''do_long'' \<mapsto> PBool False, ''do_shrt'' \<mapsto> PBool False],
            trace :=
              [SendMessage ''Reloading config...'', Call Pause,
               Call (SetConfig (PDict Map.empty)), Call InitIndicators,
               Call (SetConfigValue ''do_long'' (PBool False)),
               Call (SetConfigValue ''do_shrt'' (PBool False)),
               SendMessage
                 ''No longer opening new long or short positions, existing positions will be closed gracefully'',
               SendMessage ''Config reload in progress, please wait''],
            pending := 1\<rparr>) =
     [Pause, SetConfig (PDict Map.empty), InitIndicators]"
proof (intro conjI)
  note defs = init_world_def quiet_env_def reply_def calls_def cmd_reload_config_def
      send_msg_def send_message_def emit_def bot_do_def create_task_def
  show "cmd_reload_config quiet_env 1100 1100 (Inr PNone)
      (init_world\<lparr>config_reload_ts := 1000\<rparr>) =
     Inr (init_world\<lparr>config_reload_ts := 1000,
            trace := [SendMessage ''Config reload in progress, please wait'']\<rparr>)"
    using reload_config_in_progress [where E = quiet_env and now_guard = 1100
        and now_set = 1100 and loaded = "Inr PNone"
        and w = "init_world\<lparr>config_reload_ts := 1000\<rparr>", THEN conjunct1]
    by (simp add: defs)
  show "\<exists>w'. run quiet_env init_world
            [ReloadConfig 1000 1000 (Inr PNone), ReloadConfig 1100 1100 (Inr PNone),
             ReloadConfig 1299 1299 (Inl OSError)] = Inr w' \<and>
         calls w' = [Pause, SetConfig PNone, InitIndicators] \<and>
         config_reload_ts w' = 1000 \<and> pending w' = 1 \<and>
         trace w' =
           [SendMessage ''Reloading config...'', Call Pause, Call (SetConfig PNone),
            Call InitIndicators,
            SendMessage ''Config reload in progress, please wait'',
            SendMessage ''Config reload in progress, please wait'']"
    using reload_config_in_progress [where E = quiet_env and w = init_world and ?g0.0 = 1000
        and ?s0.0 = 1000 and cfg = PNone
        and rest = "[(1100, 1100, Inr PNone), (1299, 1299, Inl OSError)]",
        THEN conjunct2, THEN conjunct1]
    by (simp add: defs)
  let ?w2 = "init_world\<lparr>config_reload_ts := 1000,
            config := PDict [''do_long'' \<mapsto> PBool False, ''do_shrt'' \<mapsto> PBool False],
            trace :=
              [SendMessage ''Reloading config...'', Call Pause,
               Call (SetConfig (PDict Map.empty)), Call InitIndicators,
               Call (SetConfigValue ''do_long'' (PBool False)),
               Call (SetConfigValue ''do_shrt'' (PBool False)),
               SendMessage
                 ''No longer opening new long or short positions, existing positions will be closed gracefully'',
               SendMessage ''Config reload in progress, please wait''],
            pending := 1\<rparr>"
  show mixed: "run quiet_env init_world
     [ReloadConfig 1000 1000 (Inr (PDict Map.empty)), GracefulStop,
      ReloadConfig 1100 1100 (Inl OSError)] = Inr ?w2"
    by (simp add: defs cmd_graceful_stop_def Let_def)
  have "\<not> (0 < config_reload_ts init_world \<and>
          float_sub quiet_env 1000 (config_reload_ts init_world) < 300) \<and> 0 < (1000::real) \<and>
    list_all (leaves_reload quiet_env 1000) [GracefulStop, ReloadConfig 1100 1100 (Inl OSError)] \<and>
    run quiet_env init_world
      (ReloadConfig 1000 1000 (Inr (PDict Map.empty)) #
       [GracefulStop, ReloadConfig 1100 1100 (Inl OSError)]) = Inr ?w2"
    using mixed by (simp add: init_world_def quiet_env_def)
  with reload_config_in_progress [where E = quiet_env and w = init_world and ?g0.0 = 1000
        and ?s0.0 = 1000 and cfg = "PDict Map.empty"
        and between = "[GracefulStop, ReloadConfig 1100 1100 (Inl OSError)]" and ?w2.0 = ?w2,
        THEN conjunct2, THEN conjunct2]
  have "reload_calls ?w2 = reload_calls init_world @ [Pause, SetConfig (PDict Map.empty), InitIndicators] \<and>
      config_reload_ts ?w2 = 1000 \<and> pending ?w2 = Suc (pending init_world)"
    by (rule mp)
  then show "reload_calls ?w2 = [Pause, SetConfig (PDict Map.empty), InitIndicators]"
    by (simp add: reload_calls_def calls_def init_world_def)
qed

text \<open>
  Claim C2. A \<^verbatim>\<open>/reload_config\<close> that passes the guard and whose configuration file
  cannot be read or parsed returns normally, leaves the two replies
  \<^verbatim>\<open>Reloading config...\<close> and \<^verbatim>\<open>Failed to load config file\<close>, calls no bot mutator
  (so neither \<^verbatim>\<open>pause\<close> nor \<^verbatim>\<open>set_config\<close>), schedules no task and ends with the
  timestamp at zero; a retry, at any time, is accepted and starts the reload.
\<close>

theorem reload_config_load_failure:
  "\<not> (0 < config_reload_ts w \<and> float_sub E now_guard (config_reload_ts w) < 300) \<longrightarrow>
     (\<exists>w'. cmd_reload_config E now_guard now_set (Inl e) w = Inr w' \<and>
        trace w' =
          trace w @
          [reply E (length (trace w)) ''Reloading config...'',
           reply E (Suc (length (trace w))) ''Failed to load config file''] \<and>
        config_reload_ts w' = 0 \<and>
        calls w' = calls w \<and>
        pending w' = pending w \<and>
        (\<exists>w''. cmd_reload_config E retry_guard retry_set (Inr cfg) w' = Inr w'' \<and>
           calls w'' = calls w' @ [Pause, SetConfig cfg, InitIndicators] \<and>
           config_reload_ts w'' = retry_set))"
proof
  assume guard: "\<not> (0 < config_reload_ts w \<and> float_sub E now_guard (config_reload_ts w) < 300)"
  let ?w1 = "(emit (reply E (Suc (length (trace w))) ''Failed to load config file'')
             (emit (reply E (length (trace w)) ''Reloading config...'')
                (w\<lparr>config_reload_ts := now_set\<rparr>)))\<lparr>config_reload_ts := 0\<rparr>"
  have failed: "cmd_reload_config E now_guard now_set (Inl e) w = Inr ?w1"
    by (rule reload_accepted_fail [OF guard])
  have idle: "\<not> (0 < config_reload_ts ?w1 \<and> float_sub E retry_guard (config_reload_ts ?w1) < 300)"
    by simp
  note retry = reload_accepted_ok [OF idle, of retry_set cfg]
  show "\<exists>w'. cmd_reload_config E now_guard now_set (Inl e) w = Inr w' \<and>
        trace w' =
          trace w @
          [reply E (length (trace w)) ''Reloading config...'',
           reply E (Suc (length (trace w))) ''Failed to load config file''] \<and>
        config_reload_ts w' = 0 \<and>
        calls w' = calls w \<and>
        pending w' = pending w \<and>
        (\<exists>w''. cmd_reload_config E retry_guard retry_set (Inr cfg) w' = Inr w'' \<and>
           calls w'' = calls w' @ [Pause, SetConfig cfg, InitIndicators] \<and>
           config_reload_ts w'' = retry_set)"
    apply (rule exI [of _ ?w1])
    apply (intro conjI)
         apply (rule failed)
        apply simp
       apply simp
      apply simp
     apply simp
    apply (simp only: retry)
    apply simp
    done
qed

theorem reload_config_load_failure_witness:
  "cmd_reload_config quiet_env 0 1000 (Inl JSONDecodeError) init_world =
     Inr (init_world\<lparr>trace :=
            [SendMessage ''Reloading config...'',
             SendMessage ''Failed to load config file'']\<rparr>) \<and>
   cmd_reload_config quiet_env 1001 1001 (Inr PNone)
     (init_world\<lparr>trace :=
            [SendMessage ''Reloading config...'',
             SendMessage ''Failed to load config file'']\<rparr>) =
     Inr (init_world\<lparr>config_reload_ts := 1001, config := PNone,
            trace :=
              [SendMessage ''Reloading config...'',
               SendMessage ''Failed to load config file'',
               SendMessage ''Reloading config...'',
               Call Pause, Call (SetConfig PNone), Call InitIndicators],
            pending := 1\<rparr>)"
  using reload_config_load_failure [where E = quiet_env and w = init_world and now_guard = 0
      and now_set = 1000 and e = JSONDecodeError and retry_guard = 1001 and retry_set = 1001
      and cfg = PNone]
  by (simp add: init_world_def quiet_env_def reply_def calls_def cmd_reload_config_def
      send_msg_def send_message_def emit_def bot_do_def create_task_def)

section \<open>The completion callback\<close>

text \<open>
  Claim C3. The callback \<^verbatim>\<open>init_finished\<close> returns normally; it calls the bot's
  \<^verbatim>\<open>resume\<close>, then sends the banner \<^verbatim>\<open><b>Passivbot started!</b>\<close>, then runs the handler
  of \<^verbatim>\<open>/show_config\<close> itself, whose message is the configuration display, and last sets
  the timestamp to zero, so that a \<^verbatim>\<open>/reload_config\<close> right after it is accepted whatever
  the clock says. A reload that passes the guard and loads its configuration, followed by
  the end of its indicator task, has called pause, set_config, init_indicators and resume,
  in this order, and leaves the timestamp at zero.
\<close>

theorem init_finished_resumes_and_resets:
  "(\<exists>w'. init_finished E w = Inr w' \<and>
      trace w' =
        trace w @
        [Call Resume,
         reply E (Suc (length (trace w))) ''<b>Passivbot started!</b>'',
         reply E (Suc (Suc (length (trace w)))) (show_config_msg E (config w))] \<and>
      calls w' = calls w @ [Resume] \<and>
      config_reload_ts w' = 0 \<and>
      (\<exists>w''. cmd_reload_config E next_guard next_set (Inr cfg) w' = Inr w'' \<and>
         calls w'' = calls w' @ [Pause, SetConfig cfg, InitIndicators] \<and>
         config_reload_ts w'' = next_set)) \<and>
   init_finished E w =
     and_then (send_msg E ''<b>Passivbot started!</b>'' (bot_do Resume w)) (\<lambda>w1.
     and_then (show_config E w1) (\<lambda>w2.
     Inr (w2\<lparr>config_reload_ts := 0\<rparr>))) \<and>
   (\<not> (0 < config_reload_ts w \<and> float_sub E now_guard (config_reload_ts w) < 300) \<longrightarrow>
      (\<exists>w'. run E w [ReloadConfig now_guard now_set (Inr cfg), TaskDone] = Inr w' \<and>
         calls w' = calls w @ [Pause, SetConfig cfg, InitIndicators, Resume] \<and>
         config_reload_ts w' = 0 \<and>
         pending w' = pending w))"
proof (intro conjI impI)
  let ?w1 = "(emit (reply E (Suc (Suc (length (trace w)))) (show_config_msg E (config w)))
               (emit (reply E (Suc (length (trace w))) ''<b>Passivbot started!</b>'')
                 (bot_do Resume w)))\<lparr>config_reload_ts := 0\<rparr>"
  have done_eq: "init_finished E w = Inr ?w1"
    by (simp add: init_finished_def log_start_def show_config_def send_msg_reply)
  have idle: "\<not> (0 < config_reload_ts ?w1 \<and> float_sub E next_guard (config_reload_ts ?w1) < 300)"
    by simp
  note again = reload_accepted_ok [OF idle, of next_set cfg]
  show "\<exists>w'. init_finished E w = Inr w' \<and>
      trace w' =
        trace w @
        [Call Resume,
         reply E (Suc (length (trace w))) ''<b>Passivbot started!</b>'',
         reply E (Suc (Suc (length (trace w)))) (show_config_msg E (config w))] \<and>
      calls w' = calls w @ [Resume] \<and>
      config_reload_ts w' = 0 \<and>
      (\<exists>w''. cmd_reload_config E next_guard next_set (Inr cfg) w' = Inr w'' \<and>
         calls w'' = calls w' @ [Pause, SetConfig cfg, InitIndicators] \<and>
         config_reload_ts w'' = next_set)"
    apply (rule exI [of _ ?w1])
    apply (intro conjI)
        apply (rule done_eq)
       apply simp
      apply simp
     apply simp
    apply (simp only: again)
    apply simp
    done
next
  show "init_finished E w =
     and_then (send_msg E ''<b>Passivbot started!</b>'' (bot_do Resume w)) (\<lambda>w1.
     and_then (show_config E w1) (\<lambda>w2.
     Inr (w2\<lparr>config_reload_ts := 0\<rparr>)))"
    by (simp add: init_finished_def log_start_def send_msg_reply)
next
  assume guard: "\<not> (0 < config_reload_ts w \<and> float_sub E now_guard (config_reload_ts w) < 300)"
  let ?w1 = "create_task (bot_do (SetConfig cfg) (bot_do Pause
             (emit (reply E (length (trace w)) ''Reloading config...'')
                (w\<lparr>config_reload_ts := now_set\<rparr>))))"
  have started: "cmd_reload_config E now_guard now_set (Inr cfg) w = Inr ?w1"
    by (rule reload_accepted_ok [OF guard])
  have "run E w [ReloadConfig now_guard now_set (Inr cfg), TaskDone] =
          init_finished E (?w1\<lparr>pending := pending ?w1 - 1\<rparr>)"
    by (simp add: started)
  then show "\<exists>w'. run E w [ReloadConfig now_guard now_set (Inr cfg), TaskDone] = Inr w' \<and>
         calls w' = calls w @ [Pause, SetConfig cfg, InitIndicators, Resume] \<and>
         config_reload_ts w' = 0 \<and>
         pending w' = pending w"
    by (simp add: init_finished_def log_start_def show_config_def send_msg_reply)
qed

theorem init_finished_resumes_and_resets_witness:
  "run quiet_env init_world [ReloadConfig 0 1000 (Inr PNone), TaskDone] =
     Inr (init_world\<lparr>config := PNone,
            trace :=
            [SendMessage ''Reloading config...'',
             Call Pause, Call (SetConfig PNone), Call InitIndicators, Call Resume,
             SendMessage ''<b>Passivbot started!</b>'',
             SendMessage (show_config_msg quiet_env PNone)]\<rparr>) \<and>
   show_config quiet_env init_world =
     Inr (init_world\<lparr>trace := [SendMessage (show_config_msg quiet_env (PDict Map.empty))]\<rparr>)"
  using init_finished_resumes_and_resets [where E = quiet_env and w = init_world
      and now_guard = 0 and now_set = 1000 and cfg = PNone]
  by (simp add: init_world_def quiet_env_def reply_def calls_def cmd_reload_config_def
      send_msg_def send_message_def emit_def bot_do_def create_task_def init_finished_def
      log_start_def show_config_def)

section \<open>A reload whose task never ends\<close>

text \<open>
  Claim C4 says that after an accepted reload whose indicator task never ends every later
  \<^verbatim>\<open>/reload_config\<close> is rejected, at any later time, so that two reload sequences are
  never in flight together. The guard compares the clock with the timestamp: a reload is
  accepted at time 1000 and its task never ends; the next \<^verbatim>\<open>/reload_config\<close>, at time
  1300, is accepted, calls pause, set_config and init_indicators a second time and leaves
  two tasks waiting. When the task of the first then ends, its callback sets the timestamp
  of the second to zero while the task of the second still waits.
\<close>

theorem reload_never_completes_counterexample:
  "run quiet_env init_world
     [ReloadConfig 1000 1000 (Inr PNone), ReloadConfig 1300 1300 (Inr PNone)] =
   Inr (init_world\<lparr>config_reload_ts := 1300, config := PNone,
          trace :=
            [SendMessage ''Reloading config...'',
             Call Pause, Call (SetConfig PNone), Call InitIndicators,
             SendMessage ''Reloading config...'',
             Call Pause, Call (SetConfig PNone), Call InitIndicators],
          pending := 2\<rparr>) \<and>
   run quiet_env init_world
     [ReloadConfig 1000 1000 (Inr PNone), ReloadConfig 1300 1300 (Inr PNone), TaskDone] =
   Inr (init_world\<lparr>config_reload_ts := 0, config := PNone,
          trace :=
            [SendMessage ''Reloading config...'',
             Call Pause, Call (SetConfig PNone), Call InitIndicators,
             SendMessage ''Reloading config...'',
             Call Pause, Call (SetConfig PNone), Call InitIndicators,
             Call Resume,
             SendMessage ''<b>Passivbot started!</b>'',
             SendMessage (show_config_msg quiet_env PNone)],
          pending := 1\<rparr>)"
  by (simp add: init_world_def quiet_env_def cmd_reload_config_def
      send_msg_def send_message_def emit_def bot_do_def create_task_def init_finished_def
      log_start_def show_config_def)

text \<open>
  Claim C4, amended. While the timestamp is a positive clock reading and no callback
  runs (neither of the reload that stored it nor of an earlier one), every
  \<^verbatim>\<open>/reload_config\<close> for which the guard computes fewer than 300 seconds since the
  timestamp is rejected with the in-progress reply: across any run of such invocations
  the timestamp, the bot's calls and the number of waiting tasks stay as they are, and
  across any run of such invocations and other commands that return the timestamp, the
  waiting tasks and the calls of the reload sequence stay, so that no second reload
  sequence begins. An invocation for which the guard computes 300 seconds or more is
  accepted although no task has ended: it stores a new timestamp and then, when its
  configuration loads, calls pause, set_config and init_indicators again while the older
  task still waits, and, when the load fails, leaves the reply
  \<^verbatim>\<open>Failed to load config file\<close> and the timestamp at zero.
\<close>

theorem reload_in_flight_rejected_within_window:
  "0 < config_reload_ts w \<longrightarrow>
     ((\<forall>(g, s, l) \<in> set rest. float_sub E g (config_reload_ts w) < 300) \<longrightarrow>
        (\<exists>w'. run E w (map (\<lambda>(g, s, l). ReloadConfig g s l) rest) = Inr w' \<and>
           config_reload_ts w' = config_reload_ts w \<and>
           calls w' = calls w \<and>
           pending w' = pending w \<and>
           trace w' =
             trace w @
             map (\<lambda>i. reply E (length (trace w) + i) ''Config reload in progress, please wait'')
               [0..<length rest])) \<and>
     (list_all (leaves_reload E (config_reload_ts w)) between \<and>
      run E w between = Inr w2 \<longrightarrow>
        config_reload_ts w2 = config_reload_ts w \<and>
        pending w2 = pending w \<and>
        reload_calls w2 = reload_calls w) \<and>
     (300 \<le> float_sub E now_guard (config_reload_ts w) \<longrightarrow>
        (\<exists>w'. cmd_reload_config E now_guard now_set (Inr cfg) w = Inr w' \<and>
           config_reload_ts w' = now_set \<and>
           calls w' = calls w @ [Pause, SetConfig cfg, InitIndicators] \<and>
           pending w' = Suc (pending w) \<and>
           trace w' =
             trace w @
             [reply E (length (trace w)) ''Reloading config...'',
              Call Pause, Call (SetConfig cfg), Call InitIndicators]) \<and>
        (\<exists>w'. cmd_reload_config E now_guard now_set (Inl e) w = Inr w' \<and>
           config_reload_ts w' = 0 \<and>
           calls w' = calls w \<and>
           pending w' = pending w \<and>
           trace w' =
             trace w @
             [reply E (length (trace w)) ''Reloading config...'',
              reply E (Suc (length (trace w))) ''Failed to load config file'']))"
proof (intro impI conjI)
  assume pos: "0 < config_reload_ts w"
    and window: "\<forall>(g, s, l) \<in> set rest. float_sub E g (config_reload_ts w) < 300"
  let ?w1 = "w\<lparr>trace := trace w @
                  map (\<lambda>i. reply E (length (trace w) + i) ''Config reload in progress, please wait'')
                    [0..<length rest]\<rparr>"
  have "run E w (map (\<lambda>(g, s, l). ReloadConfig g s l) rest) = Inr ?w1"
    by (rule run_rejected [OF pos window])
  moreover have "calls ?w1 = calls w"
    by (simp add: calls_def calls_of_append)
  ultimately show "\<exists>w'. run E w (map (\<lambda>(g, s, l). ReloadConfig g s l) rest) = Inr w' \<and>
           config_reload_ts w' = config_reload_ts w \<and>
           calls w' = calls w \<and>
           pending w' = pending w \<and>
           trace w' =
             trace w @
             map (\<lambda>i. reply E (length (trace w) + i) ''Config reload in progress, please wait'')
               [0..<length rest]"
    by simp
next
  assume pos: "0 < config_reload_ts w"
    and quiet: "list_all (leaves_reload E (config_reload_ts w)) between \<and>
      run E w between = Inr w2"
  from quiet have q: "list_all (leaves_reload E (config_reload_ts w)) between"
    and r: "run E w between = Inr w2"
    by simp_all
  have kept: "config_reload_ts w2 = config_reload_ts w \<and> pending w2 = pending w \<and>
     reload_calls w2 = reload_calls w"
    using pos q r by (rule run_leaves_reload)
  from kept show "config_reload_ts w2 = config_reload_ts w" by simp
  from kept show "pending w2 = pending w" by simp
  from kept show "reload_calls w2 = reload_calls w" by simp
next
  assume "300 \<le> float_sub E now_guard (config_reload_ts w)"
  then have expired:
    "\<not> (0 < config_reload_ts w \<and> float_sub E now_guard (config_reload_ts w) < 300)"
    by simp
  from reload_accepted_ok [OF expired, of now_set cfg]
  show "\<exists>w'. cmd_reload_config E now_guard now_set (Inr cfg) w = Inr w' \<and>
           config_reload_ts w' = now_set \<and>
           calls w' = calls w @ [Pause, SetConfig cfg, InitIndicators] \<and>
           pending w' = Suc (pending w) \<and>
           trace w' =
             trace w @
             [reply E (length (trace w)) ''Reloading config...'',
              Call Pause, Call (SetConfig cfg), Call InitIndicators]"
    by simp
  from reload_accepted_fail [OF expired, of now_set e]
  show "\<exists>w'. cmd_reload_config E now_guard now_set (Inl e) w = Inr w' \<and>
           config_reload_ts w' = 0 \<and>
           calls w' = calls w \<and>
           pending w' = pending w \<and>
           trace w' =
             trace w @
             [reply E (length (trace w)) ''Reloading config...'',
              reply E (Suc (length (trace w))) ''Failed to load config file'']"
    by simp
qed

theorem reload_in_flight_rejected_within_window_witness:
  "run quiet_env (init_world\<lparr>config_reload_ts := 1000, pending := 1\<rparr>)
     [ReloadConfig 1001 1001 (Inr PNone), ReloadConfig 1299 1299 (Inr PNone)] =
     Inr (init_world\<lparr>config_reload_ts := 1000, pending := 1,
            trace :=
              [SendMessage ''Config reload in progress, please wait'',
               SendMessage ''Config reload in progress, please wait'']\<rparr>) \<and>
   run quiet_env (init_world\<lparr>config_reload_ts := 1000, pending := 1\<rparr>)
     [Orders, ReloadConfig 1200 1200 (Inr PNone), Balance] =
     Inr (init_world\<lparr>config_reload_ts := 1000, pending := 1,
            trace :=
              [SendMessage ''<pre>table</pre>'',
               SendMessage ''Config reload in progress, please wait'',
               SendMessage ''Balance not retrieved yet, please try again later'']\<rparr>) \<and>
   cmd_reload_config quiet_env 1300 1300 (Inr PNone)
       (init_world\<lparr>config_reload_ts := 1000, pending := 1\<rparr>) =
     Inr (init_world\<lparr>config_reload_ts := 1300, config := PNone, pending := 2,
            trace :=
              [SendMessage ''Reloading config...'',
               Call Pause, Call (SetConfig PNone), Call InitIndicators]\<rparr>) \<and>
   cmd_reload_config quiet_env 1300 1300 (Inl OSError)
       (init_world\<lparr>config_reload_ts := 1000, pending := 1\<rparr>) =
     Inr (init_world\<lparr>config_reload_ts := 0, pending := 1,
            trace :=
              [SendMessage ''Reloading config...'',
               SendMessage ''Failed to load config file'']\<rparr>)"
proof -
  note defs = init_world_def quiet_env_def reply_def calls_def cmd_reload_config_def
      send_msg_def send_message_def emit_def bot_do_def create_task_def
  let ?w = "init_world\<lparr>config_reload_ts := 1000, pending := 1\<rparr>"
  let ?w2 = "init_world\<lparr>config_reload_ts := 1000, pending := 1,
            trace :=
              [SendMessage ''<pre>table</pre>'',
               SendMessage ''Config reload in progress, please wait'',
               SendMessage ''Balance not retrieved yet, please try again later'']\<rparr>"
  have pos: "0 < config_reload_ts ?w"
    by (simp add: init_world_def)
  note facts = reload_in_flight_rejected_within_window [where E = quiet_env and w = ?w
      and rest = "[(1001, 1001, Inr PNone), (1299, 1299, Inr PNone)]"
      and between = "[Orders, ReloadConfig 1200 1200 (Inr PNone), Balance]" and ?w2.0 = ?w2
      and now_guard = 1300 and now_set = 1300 and cfg = PNone and e = OSError, THEN mp, OF pos]
  have rejected: "run quiet_env ?w
     [ReloadConfig 1001 1001 (Inr PNone), ReloadConfig 1299 1299 (Inr PNone)] =
     Inr (?w\<lparr>trace :=
              [SendMessage ''Config reload in progress, please wait'',
               SendMessage ''Config reload in progress, please wait'']\<rparr>)"
    using facts [THEN conjunct1] by (simp add: defs)
  have mixed: "run quiet_env ?w [Orders, ReloadConfig 1200 1200 (Inr PNone), Balance] = Inr ?w2"
    by (simp add: defs cmd_orders_def cmd_balance_def sortby_def Let_def nonempty_def)
  have "list_all (leaves_reload quiet_env (config_reload_ts ?w))
          [Orders, ReloadConfig 1200 1200 (Inr PNone), Balance] \<and>
        run quiet_env ?w [Orders, ReloadConfig 1200 1200 (Inr PNone), Balance] = Inr ?w2"
    using mixed by (simp add: init_world_def quiet_env_def)
  with facts [THEN conjunct2, THEN conjunct1]
  have kept: "config_reload_ts ?w2 = config_reload_ts ?w \<and> pending ?w2 = pending ?w \<and>
      reload_calls ?w2 = reload_calls ?w"
    by (rule mp)
  have "300 \<le> float_sub quiet_env 1300 (config_reload_ts ?w)"
    by (simp add: init_world_def quiet_env_def)
  with facts [THEN conjunct2, THEN conjunct2]
  have accepted:
    "(\<exists>w'. cmd_reload_config quiet_env 1300 1300 (Inr PNone) ?w = Inr w' \<and>
           config_reload_ts w' = 1300 \<and>
           calls w' = calls ?w @ [Pause, SetConfig PNone, InitIndicators] \<and>
           pending w' = Suc (pending ?w) \<and>
           trace w' =
             trace ?w @
             [reply quiet_env (length (trace ?w)) ''Reloading config...'',
              Call Pause, Call (SetConfig PNone), Call InitIndicators]) \<and>
     (\<exists>w'. cmd_reload_config quiet_env 1300 1300 (Inl OSError) ?w = Inr w' \<and>
           config_reload_ts w' = 0 \<and>
           calls w' = calls ?w \<and>
           pending w' = pending ?w \<and>
           trace w' =
             trace ?w @
             [reply quiet_env (length (trace ?w)) ''Reloading config...'',
              reply quiet_env (Suc (length (trace ?w))) ''Failed to load config file''])"
    by (rule mp)
  have ok: "cmd_reload_config quiet_env 1300 1300 (Inr PNone) ?w =
     Inr (init_world\<lparr>config_reload_ts := 1300, config := PNone, pending := 2,
            trace :=
              [SendMessage ''Reloading config...'',
               Call Pause, Call (SetConfig PNone), Call InitIndicators]\<rparr>)"
    using accepted [THEN conjunct1] by (simp add: defs)
  have fail: "cmd_reload_config quiet_env 1300 1300 (Inl OSError) ?w =
     Inr (init_world\<lparr>config_reload_ts := 0, pending := 1,
            trace :=
              [SendMessage ''Reloading config...'',
               SendMessage ''Failed to load config file'']\<rparr>)"
    using accepted [THEN conjunct2] by (simp add: defs)
  from rejected mixed kept ok fail show ?thesis
    by simp
qed

section \<open>The time between two accepted reloads\<close>

text \<open>
  Claim C5 says that at least five minutes lie between the acceptance of one reload
  attempt and the acceptance of the next. An attempt that ends resets the timestamp, and
  the next attempt is accepted at once: a reload accepted at time 1000 whose file does not
  load, or whose indicator task ends, is followed by a reload accepted at time 1001. The
  callback of an older task does the same to a newer reload: after reloads accepted at
  times 1000 and 1300, the end of the first task lets a reload at time 1311 in.
\<close>

theorem reload_cooldown_counterexample:
  "run quiet_env init_world
     [ReloadConfig 1000 1000 (Inl OSError), ReloadConfig 1001 1001 (Inr PNone)] =
   Inr (init_world\<lparr>config_reload_ts := 1001, config := PNone,
          trace :=
            [SendMessage ''Reloading config...'',
             SendMessage ''Failed to load config file'',
             SendMessage ''Reloading config...'',
             Call Pause, Call (SetConfig PNone), Call InitIndicators],
          pending := 1\<rparr>) \<and>
   run quiet_env init_world
     [ReloadConfig 1000 1000 (Inr PNone), TaskDone, ReloadConfig 1001 1001 (Inr PNone)] =
   Inr (init_world\<lparr>config_reload_ts := 1001, config := PNone,
          trace :=
            [SendMessage ''Reloading config...'',
             Call Pause, Call (SetConfig PNone), Call InitIndicators, Call Resume,
             SendMessage ''<b>Passivbot started!</b>'',
             SendMessage (show_config_msg quiet_env PNone),
             SendMessage ''Reloading config...'',
             Call Pause, Call (SetConfig PNone), Call InitIndicators],
          pending := 1\<rparr>) \<and>
   run quiet_env init_world
     [ReloadConfig 1000 1000 (Inr PNone), ReloadConfig 1300 1300 (Inr PNone), TaskDone,
      ReloadConfig 1311 1311 (Inr PNone)] =
   Inr (init_world\<lparr>config_reload_ts := 1311, config := PNone,
          trace :=
            [SendMessage ''Reloading config...'',
             Call Pause, Call (SetConfig PNone), Call InitIndicators,
             SendMessage ''Reloading config...'',
             Call Pause, Call (SetConfig PNone), Call InitIndicators,
             Call Resume,
             SendMessage ''<b>Passivbot started!</b>'',
             SendMessage (show_config_msg quiet_env PNone),
             SendMessage ''Reloading config...'',
             Call Pause, Call (SetConfig PNone), Call InitIndicators],
          pending := 2\<rparr>)"
  by (simp add: init_world_def quiet_env_def cmd_reload_config_def
      send_msg_def send_message_def emit_def bot_do_def create_task_def init_finished_def
      log_start_def show_config_def)

text \<open>
  Claim C5, amended. Take a reload attempt that is accepted, stores a positive clock
  reading and loads its configuration, and let any commands follow that return, none of
  them an accepted \<^verbatim>\<open>/reload_config\<close> (every \<^verbatim>\<open>/reload_config\<close> among them computes fewer
  than 300 seconds since the stored reading), with no callback in between. Then the stored
  reading is still the timestamp, and the next \<^verbatim>\<open>/reload_config\<close> is rejected exactly when
  its guard computes fewer than 300 seconds since that reading: the next attempt that is
  accepted computes at least 300 seconds since the first was accepted.
\<close>

theorem reload_accepted_after_cooldown:
  "\<not> (0 < config_reload_ts w \<and> float_sub E first_guard (config_reload_ts w) < 300) \<and>
   0 < first_set \<and>
   list_all (leaves_reload E first_set) between \<and>
   run E w (ReloadConfig first_guard first_set (Inr cfg) # between) = Inr w1 \<longrightarrow>
     config_reload_ts w1 = first_set \<and>
     ((cmd_reload_config E now_guard now_set loaded w1 =
         send_msg E ''Config reload in progress, please wait'' w1)
      = (float_sub E now_guard first_set < 300))"
proof
  assume h: "\<not> (0 < config_reload_ts w \<and>
      float_sub E first_guard (config_reload_ts w) < 300) \<and>
    0 < first_set \<and>
    list_all (leaves_reload E first_set) between \<and>
    run E w (ReloadConfig first_guard first_set (Inr cfg) # between) = Inr w1"
  let ?w0 = "create_task (bot_do (SetConfig cfg) (bot_do Pause
             (emit (reply E (length (trace w)) ''Reloading config...'')
                (w\<lparr>config_reload_ts := first_set\<rparr>))))"
  have first: "cmd_reload_config E first_guard first_set (Inr cfg) w = Inr ?w0"
    using h by (intro reload_accepted_ok) simp
  have ts0: "config_reload_ts ?w0 = first_set"
    by simp
  have later: "run E ?w0 between = Inr w1"
    using h by (simp add: first)
  have pos0: "0 < config_reload_ts ?w0"
    using h by (simp only: ts0)
  have quiet: "list_all (leaves_reload E (config_reload_ts ?w0)) between"
    using h by (simp only: ts0)
  have kept: "config_reload_ts w1 = config_reload_ts ?w0 \<and> pending w1 = pending ?w0 \<and>
     reload_calls w1 = reload_calls ?w0"
    using pos0 quiet later by (rule run_leaves_reload)
  then have ts1: "config_reload_ts w1 = first_set"
    by (simp only: ts0)
  then have pos1: "0 < config_reload_ts w1"
    using h by simp
  show "config_reload_ts w1 = first_set \<and>
     ((cmd_reload_config E now_guard now_set loaded w1 =
         send_msg E ''Config reload in progress, please wait'' w1)
      = (float_sub E now_guard first_set < 300))"
    using reload_rejected_iff [OF pos1, of E now_guard now_set loaded] ts1 by simp
qed

theorem reload_accepted_after_cooldown_witness:
  "run quiet_env init_world
     [ReloadConfig 0 1000 (Inr PNone), Orders, ReloadConfig 1100 1100 (Inr PNone)] =
     Inr (init_world\<lparr>config_reload_ts := 1000, config := PNone,
            trace :=
              [SendMessage ''Reloading config...'',
               Call Pause, Call (SetConfig PNone), Call InitIndicators,
               SendMessage ''<pre>table</pre>'',
               SendMessage ''Config reload in progress, please wait''],
            pending := 1\<rparr>) \<and>
   cmd_reload_config quiet_env 1299 1299 (Inr PNone)
       (init_world\<lparr>config_reload_ts := 1000, config := PNone,
            trace :=
              [SendMessage ''Reloading config...'',
               Call Pause, Call (SetConfig PNone), Call InitIndicators,
               SendMessage ''<pre>table</pre>'',
               SendMessage ''Config reload in progress, please wait''],
            pending := 1\<rparr>) =
     send_msg quiet_env ''Config reload in progress, please wait''
       (init_world\<lparr>config_reload_ts := 1000, config := PNone,
            trace :=
              [SendMessage ''Reloading config...'',
               Call Pause, Call (SetConfig PNone), Call InitIndicators,
               SendMessage ''<pre>table</pre>'',
               SendMessage ''Config reload in progress, please wait''],
            pending := 1\<rparr>) \<and>
   cmd_reload_config quiet_env 1300 1300 (Inr PNone)
       (init_world\<lparr>config_reload_ts := 1000, config := PNone,
            trace :=
              [SendMessage ''Reloading config...'',
               Call Pause, Call (SetConfig PNone), Call InitIndicators,
               SendMessage ''<pre>table</pre>'',
               SendMessage ''Config reload in progress, please wait''],
            pending := 1\<rparr>) \<noteq>
     send_msg quiet_env ''Config reload in progress, please wait''
       (init_world\<lparr>config_reload_ts := 1000, config := PNone,
            trace :=
              [SendMessage ''Reloading config...'',
               Call Pause, Call (SetConfig PNone), Call InitIndicators,
               SendMessage ''<pre>table</pre>'',
               SendMessage ''Config reload in progress, please wait''],
            pending := 1\<rparr>)"
proof -
  let ?w1 = "init_world\<lparr>config_reload_ts := 1000, config := PNone,
            trace :=
              [SendMessage ''Reloading config...'',
               Call Pause, Call (SetConfig PNone), Call InitIndicators,
               SendMessage ''<pre>table</pre>'',
               SendMessage ''Config reload in progress, please wait''],
            pending := 1\<rparr>"
  have started: "run quiet_env init_world
     [ReloadConfig 0 1000 (Inr PNone), Orders, ReloadConfig 1100 1100 (Inr PNone)] = Inr ?w1"
    by (simp add: init_world_def quiet_env_def cmd_reload_config_def send_msg_def
        send_message_def emit_def bot_do_def create_task_def cmd_orders_def sortby_def Let_def)
  have h: "\<not> (0 < config_reload_ts init_world \<and>
        float_sub quiet_env 0 (config_reload_ts init_world) < 300) \<and>
    0 < (1000::real) \<and>
    list_all (leaves_reload quiet_env 1000) [Orders, ReloadConfig 1100 1100 (Inr PNone)] \<and>
    run quiet_env init_world
      (ReloadConfig 0 1000 (Inr PNone) # [Orders, ReloadConfig 1100 1100 (Inr PNone)]) =
      Inr ?w1"
    using started by (simp add: init_world_def quiet_env_def)
  from reload_accepted_after_cooldown [where E = quiet_env and w = init_world
      and first_guard = 0 and first_set = 1000 and cfg = PNone
      and between = "[Orders, ReloadConfig 1100 1100 (Inr PNone)]" and ?w1.0 = ?w1
      and now_guard = 1299 and now_set = 1299 and loaded = "Inr PNone"] h
  have early: "config_reload_ts ?w1 = 1000 \<and>
     ((cmd_reload_config quiet_env 1299 1299 (Inr PNone) ?w1 =
         send_msg quiet_env ''Config reload in progress, please wait'' ?w1)
      = (float_sub quiet_env 1299 1000 < 300))"
    by (rule mp)
  from reload_accepted_after_cooldown [where E = quiet_env and w = init_world
      and first_guard = 0 and first_set = 1000 and cfg = PNone
      and between = "[Orders, ReloadConfig 1100 1100 (Inr PNone)]" and ?w1.0 = ?w1
      and now_guard = 1300 and now_set = 1300 and loaded = "Inr PNone"] h
  have late: "config_reload_ts ?w1 = 1000 \<and>
     ((cmd_reload_config quiet_env 1300 1300 (Inr PNone) ?w1 =
         send_msg quiet_env ''Config reload in progress, please wait'' ?w1)
      = (float_sub quiet_env 1300 1000 < 300))"
    by (rule mp)
  have "cmd_reload_config quiet_env 1299 1299 (Inr PNone) ?w1 =
         send_msg quiet_env ''Config reload in progress, please wait'' ?w1"
    using early by (simp add: quiet_env_def)
  moreover have "cmd_reload_config quiet_env 1300 1300 (Inr PNone) ?w1 \<noteq>
         send_msg quiet_env ''Config reload in progress, please wait'' ?w1"
    using late by (simp add: quiet_env_def)
  ultimately show ?thesis
    using started by simp
qed

section \<open>Graceful stop\<close>

text \<open>
  Claim C6. \<^verbatim>\<open>/graceful_stop\<close> returns normally and leaves three events: the call
  \<^verbatim>\<open>set_config_value('do_long', False)\<close>, the call \<^verbatim>\<open>set_config_value('do_shrt', False)\<close>
  and then the reply of one \<^verbatim>\<open>send_msg\<close> with the confirmation. These two are all the
  bot mutators it calls; the timestamp and the waiting tasks are untouched.
\<close>

theorem graceful_stop_two_mutator_calls:
  "(\<exists>w'. cmd_graceful_stop E w = Inr w' \<and>
      trace w' =
        trace w @
        [Call (SetConfigValue ''do_long'' (PBool False)),
         Call (SetConfigValue ''do_shrt'' (PBool False)),
         reply E (Suc (Suc (length (trace w))))
           ''No longer opening new long or short positions, existing positions will be closed gracefully''] \<and>
      calls w' =
        calls w @
        [SetConfigValue ''do_long'' (PBool False), SetConfigValue ''do_shrt'' (PBool False)] \<and>
      config_reload_ts w' = config_reload_ts w \<and>
      pending w' = pending w)"
  by (simp add: cmd_graceful_stop_def send_msg_reply)

theorem graceful_stop_two_mutator_calls_witness:
  "cmd_graceful_stop quiet_env init_world =
     Inr (init_world\<lparr>config :=
              PDict [''do_long'' \<mapsto> PBool False, ''do_shrt'' \<mapsto> PBool False],
            trace :=
            [Call (SetConfigValue ''do_long'' (PBool False)),
             Call (SetConfigValue ''do_shrt'' (PBool False)),
             SendMessage
               ''No longer opening new long or short positions, existing positions will be closed gracefully'']\<rparr>)"
  using graceful_stop_two_mutator_calls [where E = quiet_env and w = init_world]
  by (simp add: init_world_def quiet_env_def reply_def calls_def cmd_graceful_stop_def
      send_msg_def send_message_def emit_def bot_do_def)

section \<open>The order table\<close>

text \<open>
  Claim C7. \<^verbatim>\<open>/orders\<close> is one \<^verbatim>\<open>send_msg\<close> of the table laid out under the field names
  \<^verbatim>\<open>l/s\<close>, \<^verbatim>\<open>b/s\<close>, \<^verbatim>\<open>price\<close>, \<^verbatim>\<open>qty\<close> from one row for each open order (the rows are
  those of a rearrangement of the orders: same multiset, same number), each row holding
  the position side, the side, the price and the quantity of its order, and the rows are
  in ascending order of the price of their orders. For the two orders of the example,
  price 100 first and price 90 second, the row of price 90 comes before the row of price
  100.
\<close>

theorem orders_sorted_by_price:
  "(\<exists>shown.
      mset shown = mset (open_orders w) \<and>
      length shown = length (open_orders w) \<and>
      sorted (map price shown) \<and>
      cmd_orders E w =
        send_msg E
          (''<pre>'' @
           get_string E [''l/s'', ''b/s'', ''price'', ''qty'']
             (map (\<lambda>ord. [PStr (position_side ord), PStr (side ord),
                           PNum (price ord), PNum (qty ord)]) shown) @
           ''</pre>'') w) \<and>
   cmd_orders E
     (w\<lparr>open_orders :=
          [\<lparr>price = 100, qty = 1, side = ''buy'', position_side = ''long''\<rparr>,
           \<lparr>price = 90, qty = 2, side = ''sell'', position_side = ''shrt''\<rparr>]\<rparr>) =
     send_msg E
       (''<pre>'' @
        get_string E [''l/s'', ''b/s'', ''price'', ''qty'']
          [[PStr ''shrt'', PStr ''sell'', PNum 90, PNum 2],
           [PStr ''long'', PStr ''buy'', PNum 100, PNum 1]] @
        ''</pre>'')
       (w\<lparr>open_orders :=
          [\<lparr>price = 100, qty = 1, side = ''buy'', position_side = ''long''\<rparr>,
           \<lparr>price = 90, qty = 2, side = ''sell'', position_side = ''shrt''\<rparr>]\<rparr>)"
proof (intro conjI)
  let ?key = "\<lambda>ord. map cell_key
             [PNum (price ord),
              PStr (position_side ord), PStr (side ord), PNum (price ord), PNum (qty ord)]"
  have sent: "cmd_orders E v =
        send_msg E
          (''<pre>'' @
           get_string E [''l/s'', ''b/s'', ''price'', ''qty'']
             (map (\<lambda>ord. [PStr (position_side ord), PStr (side ord),
                           PNum (price ord), PNum (qty ord)])
                (sort_key ?key (open_orders v))) @
           ''</pre>'') v" for v
    unfolding cmd_orders_def Let_def add_rows_append append_Nil sortby_price_orders
    by (rule and_then_Inr)
  have "sorted (map ?key (sort_key ?key (open_orders w)))"
    by (rule sorted_sort_key)
  then have "sorted (map price (sort_key ?key (open_orders w)))"
    by (rule sorted_by_price_key [where rest = "\<lambda>ord.
        [PStr (position_side ord), PStr (side ord), PNum (price ord), PNum (qty ord)]"])
  moreover have "mset (sort_key ?key (open_orders w)) = mset (open_orders w)"
    by simp
  moreover have "length (sort_key ?key (open_orders w)) = length (open_orders w)"
    by simp
  ultimately show "\<exists>shown.
      mset shown = mset (open_orders w) \<and>
      length shown = length (open_orders w) \<and>
      sorted (map price shown) \<and>
      cmd_orders E w =
        send_msg E
          (''<pre>'' @
           get_string E [''l/s'', ''b/s'', ''price'', ''qty'']
             (map (\<lambda>ord. [PStr (position_side ord), PStr (side ord),
                           PNum (price ord), PNum (qty ord)]) shown) @
           ''</pre>'') w"
    using sent [of w] by blast
  let ?v = "w\<lparr>open_orders :=
          [\<lparr>price = 100, qty = 1, side = ''buy'', position_side = ''long''\<rparr>,
           \<lparr>price = 90, qty = 2, side = ''sell'', position_side = ''shrt''\<rparr>]\<rparr>"
  have "sort_key ?key (open_orders ?v) =
          [\<lparr>price = 90, qty = 2, side = ''sell'', position_side = ''shrt''\<rparr>,
           \<lparr>price = 100, qty = 1, side = ''buy'', position_side = ''long''\<rparr>]"
    by (simp add: less_eq_prod_def less_prod_def)
  then show "cmd_orders E ?v =
     send_msg E
       (''<pre>'' @
        get_string E [''l/s'', ''b/s'', ''price'', ''qty'']
          [[PStr ''shrt'', PStr ''sell'', PNum 90, PNum 2],
           [PStr ''long'', PStr ''buy'', PNum 100, PNum 1]] @
        ''</pre>'') ?v"
    using sent [of ?v] by simp
qed

theorem orders_sorted_by_price_witness:
  "cmd_orders listing_env
     (init_world\<lparr>open_orders :=
          [\<lparr>price = 100, qty = 1, side = ''buy'', position_side = ''long''\<rparr>,
           \<lparr>price = 90, qty = 2, side = ''sell'', position_side = ''shrt''\<rparr>]\<rparr>) =
   Inr (init_world\<lparr>open_orders :=
          [\<lparr>price = 100, qty = 1, side = ''buy'', position_side = ''long''\<rparr>,
           \<lparr>price = 90, qty = 2, side = ''sell'', position_side = ''shrt''\<rparr>],
          trace := [SendMessage ''<pre>shrt sell 90 2 |long buy 100 1 |</pre>'']\<rparr>)"
  using orders_sorted_by_price [where E = listing_env and w = init_world, THEN conjunct2]
  by (simp add: init_world_def listing_env_def quiet_env_def send_msg_def send_message_def
      emit_def show_row_def)

section \<open>The balance reply\<close>

text \<open>
  Claim C8 says that for every snapshot that is not empty \<^verbatim>\<open>/balance\<close> reports equity,
  used margin and available margin. The handler tests only that the mapping has a key:
  for the snapshot \<^verbatim>\<open>{'long': {}}\<close>, which is not empty, the lookup of \<^verbatim>\<open>equity\<close> raises
  \<^verbatim>\<open>KeyError\<close>.
\<close>

theorem balance_nonempty_counterexample:
  "cmd_balance quiet_env (init_world\<lparr>position := [''long'' \<mapsto> PDict Map.empty]\<rparr>) =
     Inl (KeyError ''equity'')"
  by (simp add: cmd_balance_def nonempty_def getitem_def init_world_def)

lemma nonempty_empty [simp]: "nonempty Map.empty = False"
  by (simp add: nonempty_def)

text \<open>
  Claim C8, amended. For the empty snapshot \<^verbatim>\<open>/balance\<close> is one \<^verbatim>\<open>send_msg\<close> of
  \<^verbatim>\<open>Balance not retrieved yet, please try again later\<close> and returns normally (no key is
  looked up). For a snapshot that is not empty and holds \<^verbatim>\<open>equity\<close>, \<^verbatim>\<open>used_margin\<close> and
  \<^verbatim>\<open>available_margin\<close> it is one \<^verbatim>\<open>send_msg\<close> of the message that reports the three
  values: the heading \<^verbatim>\<open><pre><b>Balance:</b></pre>\<close> and the lines \<^verbatim>\<open>Equity:\<close>,
  \<^verbatim>\<open>Used margin:\<close> and \<^verbatim>\<open>Available margin:\<close>, each with its value as an f-string
  formats it; it returns normally. For a snapshot that is not empty and lacks one of the
  three keys it raises \<^verbatim>\<open>KeyError\<close> for the first of them that is missing.
\<close>

theorem balance_reply:
  "(position w = Map.empty \<longrightarrow>
      cmd_balance E w = send_msg E ''Balance not retrieved yet, please try again later'' w \<and>
      (\<exists>w'. cmd_balance E w = Inr w')) \<and>
   (position w \<noteq> Map.empty \<and> position w ''equity'' = Some equity \<and>
    position w ''used_margin'' = Some used_margin \<and>
    position w ''available_margin'' = Some available_margin \<longrightarrow>
      cmd_balance E w =
        send_msg E
          (''<pre><b>Balance:</b></pre>\<newline>'' @
           ''Equity: '' @ fmt E equity @ ''\<newline>'' @
           ''Used margin: '' @ fmt E used_margin @ ''\<newline>'' @
           ''Available margin: '' @ fmt E available_margin) w \<and>
      (\<exists>w'. cmd_balance E w = Inr w')) \<and>
   (position w \<noteq> Map.empty \<and> position w ''equity'' = None \<longrightarrow>
      cmd_balance E w = Inl (KeyError ''equity'')) \<and>
   (position w \<noteq> Map.empty \<and> position w ''equity'' \<noteq> None \<and>
    position w ''used_margin'' = None \<longrightarrow>
      cmd_balance E w = Inl (KeyError ''used_margin'')) \<and>
   (position w \<noteq> Map.empty \<and> position w ''equity'' \<noteq> None \<and>
    position w ''used_margin'' \<noteq> None \<and> position w ''available_margin'' = None \<longrightarrow>
      cmd_balance E w = Inl (KeyError ''available_margin''))"
proof (intro conjI impI)
  assume "position w = Map.empty"
  then show "cmd_balance E w =
      send_msg E ''Balance not retrieved yet, please try again later'' w"
    by (simp add: cmd_balance_def)
  then show "\<exists>w'. cmd_balance E w = Inr w'"
    by (simp add: send_msg_reply)
next
  assume full: "position w \<noteq> Map.empty \<and> position w ''equity'' = Some equity \<and>
    position w ''used_margin'' = Some used_margin \<and>
    position w ''available_margin'' = Some available_margin"
  then have sent: "cmd_balance E w =
      send_msg E (balance_msg E equity used_margin available_margin) w"
    by (simp add: cmd_balance_def nonempty_def getitem_def)
  then show "cmd_balance E w =
        send_msg E
          (''<pre><b>Balance:</b></pre>\<newline>'' @
           ''Equity: '' @ fmt E equity @ ''\<newline>'' @
           ''Used margin: '' @ fmt E used_margin @ ''\<newline>'' @
           ''Available margin: '' @ fmt E available_margin) w"
    by (simp only: balance_msg_def)
  show "\<exists>w'. cmd_balance E w = Inr w'"
    by (simp add: sent send_msg_reply)
next
  assume "position w \<noteq> Map.empty \<and> position w ''equity'' = None"
  then show "cmd_balance E w = Inl (KeyError ''equity'')"
    by (simp add: cmd_balance_def nonempty_def getitem_def)
next
  assume "position w \<noteq> Map.empty \<and> position w ''equity'' \<noteq> None \<and>
    position w ''used_margin'' = None"
  then show "cmd_balance E w = Inl (KeyError ''used_margin'')"
    by (auto simp add: cmd_balance_def nonempty_def getitem_def)
next
  assume "position w \<noteq> Map.empty \<and> position w ''equity'' \<noteq> None \<and>
    position w ''used_margin'' \<noteq> None \<and> position w ''available_margin'' = None"
  then show "cmd_balance E w = Inl (KeyError ''available_margin'')"
    by (auto simp add: cmd_balance_def nonempty_def getitem_def)
qed

theorem balance_reply_witness:
  "cmd_balance listing_env init_world =
     Inr (init_world\<lparr>trace :=
            [SendMessage ''Balance not retrieved yet, please try again later'']\<rparr>) \<and>
   cmd_balance listing_env
     (init_world\<lparr>position :=
        [''equity'' \<mapsto> PNum 1000, ''used_margin'' \<mapsto> PNum 250,
         ''available_margin'' \<mapsto> PNum 675]\<rparr>) =
     Inr (init_world\<lparr>position :=
            [''equity'' \<mapsto> PNum 1000, ''used_margin'' \<mapsto> PNum 250,
             ''available_margin'' \<mapsto> PNum 675],
          trace :=
            [SendMessage
               ''<pre><b>Balance:</b></pre>\<newline>Equity: 1000\<newline>Used margin: 250\<newline>Available margin: 675'']\<rparr>) \<and>
   cmd_balance listing_env
     (init_world\<lparr>position := [''equity'' \<mapsto> PNum 1000, ''used_margin'' \<mapsto> PNum 250]\<rparr>) =
     Inl (KeyError ''available_margin'')"
proof (intro conjI)
  have "position init_world = Map.empty"
    by (simp add: init_world_def)
  with balance_reply [where E = listing_env and w = init_world]
  have "cmd_balance listing_env init_world =
     send_msg listing_env ''Balance not retrieved yet, please try again later'' init_world"
    by (simp only: simp_thms)
  then show "cmd_balance listing_env init_world =
     Inr (init_world\<lparr>trace :=
            [SendMessage ''Balance not retrieved yet, please try again later'']\<rparr>)"
    by (simp add: init_world_def listing_env_def quiet_env_def send_msg_def send_message_def
        emit_def)
next
  let ?w = "init_world\<lparr>position :=
        [''equity'' \<mapsto> PNum 1000, ''used_margin'' \<mapsto> PNum 250,
         ''available_margin'' \<mapsto> PNum 675]\<rparr>"
  have "position ?w \<noteq> Map.empty \<and> position ?w ''equity'' = Some (PNum 1000) \<and>
    position ?w ''used_margin'' = Some (PNum 250) \<and>
    position ?w ''available_margin'' = Some (PNum 675)"
    by simp
  with balance_reply [where E = listing_env and w = ?w and equity = "PNum 1000"
      and used_margin = "PNum 250" and available_margin = "PNum 675"]
  have "cmd_balance listing_env ?w =
     send_msg listing_env
       (''<pre><b>Balance:</b></pre>\<newline>'' @
        ''Equity: '' @ fmt listing_env (PNum 1000) @ ''\<newline>'' @
        ''Used margin: '' @ fmt listing_env (PNum 250) @ ''\<newline>'' @
        ''Available margin: '' @ fmt listing_env (PNum 675)) ?w"
    by (simp only: simp_thms)
  then show "cmd_balance listing_env ?w =
     Inr (?w\<lparr>trace :=
            [SendMessage
               ''<pre><b>Balance:</b></pre>\<newline>Equity: 1000\<newline>Used margin: 250\<newline>Available margin: 675'']\<rparr>)"
    by (simp add: init_world_def listing_env_def quiet_env_def send_msg_def send_message_def
        emit_def)
next
  let ?w = "init_world\<lparr>position := [''equity'' \<mapsto> PNum 1000, ''used_margin'' \<mapsto> PNum 250]\<rparr>"
  have "position ?w \<noteq> Map.empty \<and> position ?w ''equity'' \<noteq> None \<and>
    position ?w ''used_margin'' \<noteq> None \<and> position ?w ''available_margin'' = None"
    by simp
  with balance_reply [where E = listing_env and w = ?w]
  show "cmd_balance listing_env ?w = Inl (KeyError ''available_margin'')"
    by (simp only: simp_thms)
qed

section \<open>Sending never raises\<close>

lemma raise_before_send:
  "and_then r (\<lambda>x. send_msg E (f x) w) = Inl e \<Longrightarrow> r = Inl e"
  by (cases r) (simp_all add: send_msg_reply)

lemma balance_msg_transport:
  "balance_msg (E\<lparr>transport := t\<rparr>) a b c = balance_msg E a b c"
  by (simp add: balance_msg_def)

text \<open>
  Claim C9. For every message, state and behaviour of the transport, \<^verbatim>\<open>send_msg\<close>
  returns normally: when the transport takes the message the trace grows by the message,
  when the transport raises, whatever it raises, the trace grows by the printed line
  \<^verbatim>\<open>Failed to send telegram message\<close> and nothing reaches the caller. So the handlers
  that do nothing but call the bot and send (help, orders, graceful stop, show config,
  the start announcement, the reload and its callback) return normally under every
  transport, and a raise of \<^verbatim>\<open>/balance\<close> or \<^verbatim>\<open>/position\<close> does not come from the
  transport: it is the same under any other transport.
\<close>

theorem send_msg_never_raises:
  "(\<exists>w'. send_msg E msg w = Inr w' \<and>
      config_reload_ts w' = config_reload_ts w \<and>
      calls w' = calls w \<and>
      (transport E (length (trace w)) msg = None \<longrightarrow>
         trace w' = trace w @ [SendMessage msg]) \<and>
      (transport E (length (trace w)) msg = Some err \<longrightarrow>
         trace w' = trace w @ [Print ''Failed to send telegram message''])) \<and>
   (\<exists>w'. cmd_help E w = Inr w') \<and>
   (\<exists>w'. cmd_orders E w = Inr w') \<and>
   (\<exists>w'. cmd_graceful_stop E w = Inr w') \<and>
   (\<exists>w'. show_config E w = Inr w') \<and>
   (\<exists>w'. log_start E w = Inr w') \<and>
   (\<exists>w'. cmd_reload_config E now_guard now_set loaded w = Inr w') \<and>
   (\<exists>w'. init_finished E w = Inr w') \<and>
   (cmd_balance E w = Inl e \<longrightarrow> cmd_balance (E\<lparr>transport := other\<rparr>) w = Inl e) \<and>
   (cmd_position E w = Inl e \<longrightarrow> cmd_position (E\<lparr>transport := other\<rparr>) w = Inl e)"
proof (intro conjI)
  show "\<exists>w'. send_msg E msg w = Inr w' \<and>
      config_reload_ts w' = config_reload_ts w \<and>
      calls w' = calls w \<and>
      (transport E (length (trace w)) msg = None \<longrightarrow>
         trace w' = trace w @ [SendMessage msg]) \<and>
      (transport E (length (trace w)) msg = Some err \<longrightarrow>
         trace w' = trace w @ [Print ''Failed to send telegram message''])"
    by (simp add: send_msg_reply) (simp add: reply_def)
  show "\<exists>w'. cmd_help E w = Inr w'"
    by (simp add: cmd_help_def send_msg_reply)
  show "\<exists>w'. cmd_orders E w = Inr w'"
    by (simp add: cmd_orders_def Let_def add_rows_append sortby_price_orders send_msg_reply)
  show "\<exists>w'. cmd_graceful_stop E w = Inr w'"
    by (simp add: cmd_graceful_stop_def Let_def send_msg_reply)
  show "\<exists>w'. show_config E w = Inr w'"
    by (simp add: show_config_def send_msg_reply)
  show "\<exists>w'. log_start E w = Inr w'"
    by (simp add: log_start_def show_config_def send_msg_reply)
  show "\<exists>w'. cmd_reload_config E now_guard now_set loaded w = Inr w'"
    by (cases loaded) (simp_all add: cmd_reload_config_def send_msg_reply)
  show "\<exists>w'. init_finished E w = Inr w'"
    by (simp add: init_finished_def log_start_def show_config_def send_msg_reply)
  show "cmd_balance E w = Inl e \<longrightarrow> cmd_balance (E\<lparr>transport := other\<rparr>) w = Inl e"
  proof (rule impI)
    assume "cmd_balance E w = Inl e"
    then have raised:
      "(if nonempty (position w) then
          and_then (getitem (position w) ''equity'') (\<lambda>equity.
          and_then (getitem (position w) ''used_margin'') (\<lambda>used_margin.
          and_then (getitem (position w) ''available_margin'') (\<lambda>available_margin.
          Inr (balance_msg E equity used_margin available_margin))))
        else Inr ''Balance not retrieved yet, please try again later'') = Inl e"
      unfolding cmd_balance_def by (rule raise_before_send [where f = "\<lambda>x. x"])
    show "cmd_balance (E\<lparr>transport := other\<rparr>) w = Inl e"
      unfolding cmd_balance_def balance_msg_transport raised by (rule and_then_Inl)
  qed
  show "cmd_position E w = Inl e \<longrightarrow> cmd_position (E\<lparr>transport := other\<rparr>) w = Inl e"
  proof (cases "position w ''long'' = None")
    case True
    then show ?thesis
      by (simp add: cmd_position_def send_msg_reply)
  next
    case False
    let ?table = "and_then (getitem (position w) ''long'') (\<lambda>long_position.
        and_then (getitem (position w) ''shrt'') (\<lambda>shrt_position.
        add_position_rows position_fields long_position shrt_position []))"
    have shape: "cmd_position F w =
        and_then ?table (\<lambda>table.
          send_msg F (''<pre>'' @ get_string F ['''', ''Long'', ''Short''] table @ ''</pre>'') w)"
      for F
      using False by (cases "getitem (position w) ''long''"; cases "getitem (position w) ''shrt''")
        (simp_all add: cmd_position_def)
    show ?thesis
    proof (rule impI)
      assume "cmd_position E w = Inl e"
      then have "?table = Inl e"
        unfolding shape by (rule raise_before_send)
      then show "cmd_position (E\<lparr>transport := other\<rparr>) w = Inl e"
        unfolding shape by simp
    qed
  qed
qed

theorem send_msg_never_raises_witness:
  "send_msg offline_env ''Reloading config...'' init_world =
     Inr (init_world\<lparr>trace := [Print ''Failed to send telegram message'']\<rparr>) \<and>
   send_msg quiet_env ''Reloading config...'' init_world =
     Inr (init_world\<lparr>trace := [SendMessage ''Reloading config...'']\<rparr>)"
  using send_msg_never_raises [where E = offline_env and w = init_world
      and msg = "''Reloading config...''" and err = NetworkError and now_guard = 0
      and now_set = 0 and loaded = "Inr PNone" and e = TypeError and other = "\<lambda>n msg. None",
      THEN conjunct1]
    send_msg_never_raises [where E = quiet_env and w = init_world
      and msg = "''Reloading config...''" and err = NetworkError and now_guard = 0
      and now_set = 0 and loaded = "Inr PNone" and e = TypeError and other = "\<lambda>n msg. None",
      THEN conjunct1]
  by (simp add: init_world_def quiet_env_def offline_env_def send_msg_def send_message_def
      emit_def)

section \<open>The position reply\<close>

lemma position_row_present:
  "long_side k = Some a \<Longrightarrow> shrt_side k = Some b \<Longrightarrow>
   position_row label k (PDict long_side) (PDict shrt_side) = Inr [PStr label, a, b]"
  by (simp add: position_row_def subscript_def getitem_def)

lemma position_row_missing:
  "long_side k = None \<or> shrt_side k = None \<Longrightarrow>
   position_row label k (PDict long_side) (PDict shrt_side) = Inl (KeyError k)"
  by (cases "long_side k") (auto simp add: position_row_def subscript_def getitem_def)

lemma add_position_rows_present:
  "\<forall>k \<in> set (map snd fs). long_side k \<noteq> None \<and> shrt_side k \<noteq> None \<Longrightarrow>
   add_position_rows fs (PDict long_side) (PDict shrt_side) table =
     Inr (table @
          map (\<lambda>(label, k). [PStr label, the (long_side k), the (shrt_side k)]) fs)"
proof (induction fs arbitrary: table)
  case Nil
  then show ?case by simp
next
  case (Cons field fs)
  obtain label k where field: "field = (label, k)"
    by (cases field)
  from Cons.prems field obtain a b where "long_side k = Some a" and "shrt_side k = Some b"
    by auto
  then have "position_row label k (PDict long_side) (PDict shrt_side) = Inr [PStr label, a, b]"
      and "the (long_side k) = a" and "the (shrt_side k) = b"
    by (simp_all add: position_row_present)
  moreover have "add_position_rows fs (PDict long_side) (PDict shrt_side)
        (table @ [[PStr label, a, b]]) =
      Inr ((table @ [[PStr label, a, b]]) @
          map (\<lambda>(label, k). [PStr label, the (long_side k), the (shrt_side k)]) fs)"
    using Cons.prems by (intro Cons.IH) simp
  ultimately show ?case
    by (simp add: field)
qed

lemma add_position_rows_missing:
  "\<exists>k \<in> set (map snd fs). long_side k = None \<or> shrt_side k = None \<Longrightarrow>
   \<exists>k \<in> set (map snd fs).
     add_position_rows fs (PDict long_side) (PDict shrt_side) table = Inl (KeyError k)"
proof (induction fs arbitrary: table)
  case Nil
  then show ?case by simp
next
  case (Cons field fs)
  obtain label k where field: "field = (label, k)"
    by (cases field)
  show ?case
  proof (cases "long_side k = None \<or> shrt_side k = None")
    case True
    then have "add_position_rows (field # fs) (PDict long_side) (PDict shrt_side) table =
        Inl (KeyError k)"
      by (simp add: field position_row_missing)
    then show ?thesis
      by (auto simp add: field)
  next
    case False
    then obtain a b where here: "long_side k = Some a" "shrt_side k = Some b"
      by auto
    then have row:
      "position_row label k (PDict long_side) (PDict shrt_side) = Inr [PStr label, a, b]"
      by (rule position_row_present)
    from False Cons.prems field
    have "\<exists>k \<in> set (map snd fs). long_side k = None \<or> shrt_side k = None"
      by auto
    then obtain k' where "k' \<in> set (map snd fs)"
      and "add_position_rows fs (PDict long_side) (PDict shrt_side)
             (table @ [[PStr label, a, b]]) = Inl (KeyError k')"
      using Cons.IH by blast
    then show ?thesis
      by (auto simp add: field row)
  qed
qed

text \<open>
  A side that is present but is not a mapping cannot be subscripted: the first row raises,
  a \<^verbatim>\<open>TypeError\<close> or, when the long side is a mapping without \<^verbatim>\<open>size\<close>, a
  \<^verbatim>\<open>KeyError\<close>. Nothing is sent.
\<close>

lemma position_side_not_mapping:
  assumes "position w ''long'' = Some long_position"
    and "position w ''shrt'' = Some shrt_position"
    and "(\<forall>d. long_position \<noteq> PDict d) \<or> (\<forall>d. shrt_position \<noteq> PDict d)"
  shows "cmd_position E w = Inl TypeError \<or> cmd_position E w = Inl (KeyError ''size'')"
  using assms
  by (cases long_position; cases shrt_position)
    (auto simp add: cmd_position_def getitem_def position_fields_def position_row_def
      subscript_def and_then_def split: option.splits)

text \<open>
  Claim C10. \<^verbatim>\<open>/position\<close> decides by the key \<^verbatim>\<open>long\<close> alone. Without it, whatever else
  the mapping holds, the handler is one \<^verbatim>\<open>send_msg\<close> of
  \<^verbatim>\<open>Position not initialized yet, please try again later\<close>. With it, the entry \<^verbatim>\<open>shrt\<close>
  is read: when it is absent the handler raises \<^verbatim>\<open>KeyError('shrt')\<close>. When both sides
  are mappings, the six keys of both are read: if one of them is absent on a side the
  handler raises \<^verbatim>\<open>KeyError\<close> of one of the six keys and sends nothing; if all twelve
  are present it is one \<^verbatim>\<open>send_msg\<close> of the table of the six rows.
\<close>

theorem position_decided_by_long_key:
  "(position w ''long'' = None \<longrightarrow>
      cmd_position E w =
        send_msg E ''Position not initialized yet, please try again later'' w) \<and>
   (position w ''long'' \<noteq> None \<and> position w ''shrt'' = None \<longrightarrow>
      cmd_position E w = Inl (KeyError ''shrt'')) \<and>
   (position w ''long'' = Some (PDict long_side) \<and>
    position w ''shrt'' = Some (PDict shrt_side) \<and>
    (\<exists>k \<in> set (map snd position_fields). long_side k = None \<or> shrt_side k = None) \<longrightarrow>
      (\<exists>k \<in> set (map snd position_fields). cmd_position E w = Inl (KeyError k))) \<and>
   (position w ''long'' = Some (PDict long_side) \<and>
    position w ''shrt'' = Some (PDict shrt_side) \<and>
    (\<forall>k \<in> set (map snd position_fields). long_side k \<noteq> None \<and> shrt_side k \<noteq> None) \<longrightarrow>
      cmd_position E w =
        send_msg E
          (''<pre>'' @
           get_string E ['''', ''Long'', ''Short'']
             (map (\<lambda>(label, k). [PStr label, the (long_side k), the (shrt_side k)])
                position_fields) @
           ''</pre>'') w) \<and>
   map snd position_fields =
     [''size'', ''price'', ''leverage'', ''liquidation_price'', ''liq_diff'', ''upnl'']"
proof (intro conjI impI)
  assume "position w ''long'' = None"
  then show "cmd_position E w =
        send_msg E ''Position not initialized yet, please try again later'' w"
    by (simp add: cmd_position_def)
next
  assume "position w ''long'' \<noteq> None \<and> position w ''shrt'' = None"
  then show "cmd_position E w = Inl (KeyError ''shrt'')"
    by (auto simp add: cmd_position_def getitem_def)
next
  assume h: "position w ''long'' = Some (PDict long_side) \<and>
    position w ''shrt'' = Some (PDict shrt_side) \<and>
    (\<exists>k \<in> set (map snd position_fields). long_side k = None \<or> shrt_side k = None)"
  then have "\<exists>k \<in> set (map snd position_fields).
     add_position_rows position_fields (PDict long_side) (PDict shrt_side) [] =
       Inl (KeyError k)"
    by (intro add_position_rows_missing) simp
  then obtain k where "k \<in> set (map snd position_fields)"
    and "add_position_rows position_fields (PDict long_side) (PDict shrt_side) [] =
       Inl (KeyError k)"
    by blast
  with h have "k \<in> set (map snd position_fields) \<and> cmd_position E w = Inl (KeyError k)"
    by (simp add: cmd_position_def getitem_def)
  then show "\<exists>k \<in> set (map snd position_fields). cmd_position E w = Inl (KeyError k)"
    by blast
next
  assume h: "position w ''long'' = Some (PDict long_side) \<and>
    position w ''shrt'' = Some (PDict shrt_side) \<and>
    (\<forall>k \<in> set (map snd position_fields). long_side k \<noteq> None \<and> shrt_side k \<noteq> None)"
  then have "add_position_rows position_fields (PDict long_side) (PDict shrt_side) [] =
     Inr ([] @
          map (\<lambda>(label, k). [PStr label, the (long_side k), the (shrt_side k)])
            position_fields)"
    by (intro add_position_rows_present) simp
  with h show "cmd_position E w =
        send_msg E
          (''<pre>'' @
           get_string E ['''', ''Long'', ''Short'']
             (map (\<lambda>(label, k). [PStr label, the (long_side k), the (shrt_side k)])
                position_fields) @
           ''</pre>'') w"
    by (simp add: cmd_position_def getitem_def)
next
  show "map snd position_fields =
     [''size'', ''price'', ''leverage'', ''liquidation_price'', ''liq_diff'', ''upnl'']"
    by (simp add: position_fields_def)
qed

theorem position_decided_by_long_key_witness:
  "cmd_position quiet_env (init_world\<lparr>position := [''shrt'' \<mapsto> PDict example_side]\<rparr>) =
     send_msg quiet_env ''Position not initialized yet, please try again later''
       (init_world\<lparr>position := [''shrt'' \<mapsto> PDict example_side]\<rparr>) \<and>
   cmd_position quiet_env (init_world\<lparr>position := [''long'' \<mapsto> PDict example_side]\<rparr>) =
     Inl (KeyError ''shrt'') \<and>
   (\<exists>k \<in> set (map snd position_fields).
      cmd_position quiet_env
        (init_world\<lparr>position :=
           [''long'' \<mapsto> PDict example_side,
            ''shrt'' \<mapsto> PDict (example_side(''upnl'' := None))]\<rparr>) =
      Inl (KeyError k)) \<and>
   cmd_position quiet_env
     (init_world\<lparr>position :=
        [''long'' \<mapsto> PDict example_side, ''shrt'' \<mapsto> PDict example_side]\<rparr>) =
     send_msg quiet_env
       (''<pre>'' @
        get_string quiet_env ['''', ''Long'', ''Short'']
          (map (\<lambda>(label, k). [PStr label, the (example_side k), the (example_side k)])
             position_fields) @
        ''</pre>'')
       (init_world\<lparr>position :=
          [''long'' \<mapsto> PDict example_side, ''shrt'' \<mapsto> PDict example_side]\<rparr>)"
proof (intro conjI)
  let ?w = "init_world\<lparr>position := [''shrt'' \<mapsto> PDict example_side]\<rparr>"
  have absent: "position ?w ''long'' = None"
    by simp
  from position_decided_by_long_key [where E = quiet_env and w = ?w, THEN conjunct1] absent
  show "cmd_position quiet_env ?w =
     send_msg quiet_env ''Position not initialized yet, please try again later'' ?w"
    by (rule mp)
next
  let ?w = "init_world\<lparr>position := [''long'' \<mapsto> PDict example_side]\<rparr>"
  have half: "position ?w ''long'' \<noteq> None \<and> position ?w ''shrt'' = None"
    by simp
  from position_decided_by_long_key [where E = quiet_env and w = ?w,
      THEN conjunct2, THEN conjunct1] half
  show "cmd_position quiet_env ?w = Inl (KeyError ''shrt'')"
    by (rule mp)
next
  let ?w = "init_world\<lparr>position :=
           [''long'' \<mapsto> PDict example_side,
            ''shrt'' \<mapsto> PDict (example_side(''upnl'' := None))]\<rparr>"
  have "''upnl'' \<in> set (map snd position_fields)"
    by (simp add: position_fields_def)
  moreover have "(example_side(''upnl'' := None)) ''upnl'' = None"
    by simp
  ultimately have "\<exists>k \<in> set (map snd position_fields).
      example_side k = None \<or> (example_side(''upnl'' := None)) k = None"
    by blast
  then have gap: "position ?w ''long'' = Some (PDict example_side) \<and>
    position ?w ''shrt'' = Some (PDict (example_side(''upnl'' := None))) \<and>
    (\<exists>k \<in> set (map snd position_fields).
       example_side k = None \<or> (example_side(''upnl'' := None)) k = None)"
    by simp
  from position_decided_by_long_key [where E = quiet_env and w = ?w
      and long_side = example_side and shrt_side = "example_side(''upnl'' := None)",
      THEN conjunct2, THEN conjunct2, THEN conjunct1] gap
  show "\<exists>k \<in> set (map snd position_fields). cmd_position quiet_env ?w = Inl (KeyError k)"
    by (rule mp)
next
  let ?w = "init_world\<lparr>position :=
        [''long'' \<mapsto> PDict example_side, ''shrt'' \<mapsto> PDict example_side]\<rparr>"
  have "\<forall>k \<in> set (map snd position_fields). example_side k \<noteq> None \<and> example_side k \<noteq> None"
    by (simp add: position_fields_def example_side_def)
  then have full: "position ?w ''long'' = Some (PDict example_side) \<and>
    position ?w ''shrt'' = Some (PDict example_side) \<and>
    (\<forall>k \<in> set (map snd position_fields). example_side k \<noteq> None \<and> example_side k \<noteq> None)"
    by simp
  from position_decided_by_long_key [where E = quiet_env and w = ?w
      and long_side = example_side and shrt_side = example_side,
      THEN conjunct2, THEN conjunct2, THEN conjunct2, THEN conjunct1] full
  show "cmd_position quiet_env ?w =
     send_msg quiet_env
       (''<pre>'' @
        get_string quiet_env ['''', ''Long'', ''Short'']
          (map (\<lambda>(label, k). [PStr label, the (example_side k), the (example_side k)])
             position_fields) @
        ''</pre>'') ?w"
    by (rule mp)
qed

end
